theory Spec2Isabelle
  imports Complex_Main "HOL-Library.AList"
begin

section \<open>JavaScript values read and built by index.js\<close>

text \<open>
  Request bodies reach the handlers through \<^verbatim>\<open>express.json()\<close>, and the objects of the
  payment provider are plain data too, so a value is one of the JSON shapes or \<^verbatim>\<open>undefined\<close>.

  A number is an IEEE double. A finite double is a rational, and \<open>Fin r\<close> stands for the
  double whose exact value is \<open>r\<close>; \<open>Fin 0\<close> is \<open>+0\<close> and \<open>NegZero\<close> is \<open>-0\<close>. Every double is
  covered, so a statement over all \<open>jsnum\<close> holds of every double.

  A string is a list of code units below 256. An object is an association list read by
  \<open>map_of\<close>; the order in which an engine enumerates keys is not modelled.
\<close>

datatype jsnum = NaN | PosInf | NegInf | NegZero | Fin rat

datatype jsval =
    JUndefined
  | JNull
  | JBool bool
  | JNum jsnum
  | JStr string
  | JArr "jsval list"
  | JObj "(string \<times> jsval) list"

text \<open>
  A thrown \<^verbatim>\<open>Error\<close>: its \<^verbatim>\<open>message\<close>, and the \<^verbatim>\<open>type\<close> property that the payment provider's
  errors carry and the engine's own \<^verbatim>\<open>TypeError\<close>s lack. The texts of the engine's errors are
  those V8 prints.
\<close>

datatype js_error = JsError (message: string) (etype: "string option")

definition TypeError :: "string \<Rightarrow> js_error" where
  "TypeError msg = JsError msg None"

text \<open>
  Three built-ins of the engine are taken as parameters, since they are defined by the
  binary representation of doubles: parsing a string as a number, printing a number that is not
  an integer below \<open>2^53\<close> in magnitude, and division.
\<close>

record runtime =
  str_to_num :: "string \<Rightarrow> jsnum"
  num_to_str :: "jsnum \<Rightarrow> string"
  num_div :: "jsnum \<Rightarrow> jsnum \<Rightarrow> jsnum"

subsection \<open>Truthiness, property reads\<close>

fun truthy :: "jsval \<Rightarrow> bool" where
  "truthy JUndefined = False"
| "truthy JNull = False"
| "truthy (JBool b) = b"
| "truthy (JNum n) = (n \<noteq> NaN \<and> n \<noteq> NegZero \<and> n \<noteq> Fin 0)"
| "truthy (JStr s) = (s \<noteq> [])"
| "truthy (JArr xs) = True"
| "truthy (JObj kvs) = True"

definition nullish :: "jsval \<Rightarrow> bool" where
  "nullish v = (v = JUndefined \<or> v = JNull)"

text \<open>\<^verbatim>\<open>a || b\<close>\<close>

definition js_or :: "jsval \<Rightarrow> jsval \<Rightarrow> jsval" where
  "js_or a b = (if truthy a then a else b)"

text \<open>\<^verbatim>\<open>a && b\<close>\<close>

definition js_and :: "jsval \<Rightarrow> jsval \<Rightarrow> jsval" where
  "js_and a b = (if truthy a then b else a)"

fun dec :: "nat \<Rightarrow> string" where
  "dec n = (if n < 10 then [''0123456789'' ! n]
            else dec (n div 10) @ [''0123456789'' ! (n mod 10)])"

declare dec.simps [simp del]

text \<open>
  \<open>jsprop v k\<close> is the value of \<^verbatim>\<open>v.k\<close> for a \<open>v\<close> that is neither \<^verbatim>\<open>null\<close> nor \<^verbatim>\<open>undefined\<close>, for the
  data properties the program reads (\<^verbatim>\<open>amount\<close>, \<^verbatim>\<open>email\<close>, \<^verbatim>\<open>length\<close>, \<^verbatim>\<open>status\<close>, ...): an own
  property of an object, the length of an array or a string, and \<^verbatim>\<open>undefined\<close> otherwise. None
  of the names read is an array index or a property of a built-in prototype; the two methods
  called, \<^verbatim>\<open>toFixed\<close> and \<^verbatim>\<open>toString\<close>, are modelled on their own below.
\<close>

fun jsprop :: "jsval \<Rightarrow> string \<Rightarrow> jsval" where
  "jsprop (JObj kvs) k = (case map_of kvs k of None \<Rightarrow> JUndefined | Some v \<Rightarrow> v)"
| "jsprop (JArr xs) k = (if k = ''length'' then JNum (Fin (of_nat (length xs))) else JUndefined)"
| "jsprop (JStr s) k = (if k = ''length'' then JNum (Fin (of_nat (length s))) else JUndefined)"
| "jsprop v k = JUndefined"

definition type_name :: "jsval \<Rightarrow> string" where
  "type_name v = (if v = JNull then ''null'' else ''undefined'')"

text \<open>\<^verbatim>\<open>v.k\<close>, which throws on \<^verbatim>\<open>null\<close> and \<^verbatim>\<open>undefined\<close>.\<close>

definition get :: "jsval \<Rightarrow> string \<Rightarrow> js_error + jsval" where
  "get v k =
     (if nullish v
      then Inl (TypeError (''Cannot read properties of '' @ type_name v @ '' (reading '' @ [CHR 0x27] @ k @ [CHR 0x27] @ '')''))
      else Inr (jsprop v k))"

text \<open>\<^verbatim>\<open>v?.k\<close>\<close>

definition opt :: "jsval \<Rightarrow> string \<Rightarrow> jsval" where
  "opt v k = (if nullish v then JUndefined else jsprop v k)"

text \<open>The own enumerable properties that \<^verbatim>\<open>{...v}\<close> copies.\<close>

fun own_props :: "jsval \<Rightarrow> (string \<times> jsval) list" where
  "own_props (JObj kvs) = kvs"
| "own_props (JArr xs) = zip (map dec [0..<length xs]) xs"
| "own_props (JStr s) = zip (map dec [0..<length s]) (map (\<lambda>c. JStr [c]) s)"
| "own_props v = []"

subsection \<open>Numbers\<close>

text \<open>\<^verbatim>\<open>n < c\<close> for a finite constant \<open>c\<close>: false on \<^verbatim>\<open>NaN\<close>.\<close>

fun num_less :: "jsnum \<Rightarrow> rat \<Rightarrow> bool" where
  "num_less NaN c = False"
| "num_less PosInf c = False"
| "num_less NegInf c = True"
| "num_less NegZero c = (0 < c)"
| "num_less (Fin r) c = (r < c)"

text \<open>
  \<^verbatim>\<open>Math.round\<close>: the nearest integer, a tie going up; \<open>-0\<close> for an argument in \<open>[-1/2, 0)\<close>.
\<close>

fun Math_round :: "jsnum \<Rightarrow> jsnum" where
  "Math_round (Fin r) =
     (if r < 0 \<and> - (1 / 2) \<le> r then NegZero else Fin (of_int \<lfloor>r + 1 / 2\<rfloor>))"
| "Math_round n = n"

definition is_integer :: "rat \<Rightarrow> bool" where
  "is_integer r = (of_int \<lfloor>r\<rfloor> = r)"

text \<open>
  \<^verbatim>\<open>Number.prototype.toString()\<close> in radix 10. The engine prints the shortest digits that read
  back as the same double: for an integer below \<open>2^53\<close> in magnitude these are its decimal
  digits; any other finite number is left to the parameter.
\<close>

fun Number_toString :: "runtime \<Rightarrow> jsnum \<Rightarrow> string" where
  "Number_toString rt NaN = ''NaN''"
| "Number_toString rt PosInf = ''Infinity''"
| "Number_toString rt NegInf = ''-Infinity''"
| "Number_toString rt NegZero = ''0''"
| "Number_toString rt (Fin r) =
     (if is_integer r \<and> \<bar>r\<bar> < 2 ^ 53
      then (if r < 0 then ''-'' else '''') @ dec (nat \<bar>\<lfloor>r\<rfloor>\<bar>)
      else num_to_str rt (Fin r))"

text \<open>
  The digits of \<^verbatim>\<open>x.toFixed(2)\<close> for \<open>0 \<le> x < 10^21\<close>: with \<open>n\<close> the integer nearest to \<open>100 x\<close>
  (the larger one at a tie), the decimal digits of \<open>n\<close>, padded on the left with zeros to three
  digits, with a point before the last two.
\<close>

definition fixed2 :: "rat \<Rightarrow> string" where
  "fixed2 x =
     (let m = dec (nat \<lfloor>x * 100 + 1 / 2\<rfloor>);
          m = (if length m \<le> 2 then replicate (3 - length m) (CHR ''0'') @ m else m)
      in take (length m - 2) m @ ''.'' @ drop (length m - 2) m)"

text \<open>\<^verbatim>\<open>Number.prototype.toFixed(2)\<close>\<close>

fun toFixed2 :: "runtime \<Rightarrow> jsnum \<Rightarrow> string" where
  "toFixed2 rt NaN = ''NaN''"
| "toFixed2 rt PosInf = ''Infinity''"
| "toFixed2 rt NegInf = ''-Infinity''"
| "toFixed2 rt NegZero = ''0.00''"
| "toFixed2 rt (Fin r) =
     (if r < 0 then ''-'' else '''') @
     (if 10 ^ 21 \<le> \<bar>r\<bar> then Number_toString rt (Fin \<bar>r\<bar>) else fixed2 \<bar>r\<bar>)"

subsection \<open>Conversions to string and to number\<close>

fun join_strs :: "string list \<Rightarrow> string" where
  "join_strs [] = []"
| "join_strs [s] = s"
| "join_strs (s # t # ss) = s @ '','' @ join_strs (t # ss)"

fun seq_all :: "('e + 'a) list \<Rightarrow> 'e + 'a list" where
  "seq_all [] = Inr []"
| "seq_all (Inl e # xs) = Inl e"
| "seq_all (Inr x # xs) = (case seq_all xs of Inl e \<Rightarrow> Inl e | Inr ys \<Rightarrow> Inr (x # ys))"

text \<open>
  \<^verbatim>\<open>ToString\<close>, as a template literal applies it. An array is joined with commas, \<^verbatim>\<open>null\<close> and
  \<^verbatim>\<open>undefined\<close> elements printing as nothing. A plain object prints through
  \<^verbatim>\<open>Object.prototype.toString\<close>, unless it has an own property \<^verbatim>\<open>toString\<close>: that one is data,
  not a function, \<^verbatim>\<open>valueOf\<close> returns the object itself, and the conversion throws.
\<close>

fun ToString :: "runtime \<Rightarrow> jsval \<Rightarrow> js_error + string" where
  "ToString rt JUndefined = Inr ''undefined''"
| "ToString rt JNull = Inr ''null''"
| "ToString rt (JBool b) = Inr (if b then ''true'' else ''false'')"
| "ToString rt (JNum n) = Inr (Number_toString rt n)"
| "ToString rt (JStr s) = Inr s"
| "ToString rt (JArr xs) =
     (case seq_all (map (\<lambda>x. if nullish x then Inr [] else ToString rt x) xs) of
        Inl e \<Rightarrow> Inl e
      | Inr ss \<Rightarrow> Inr (join_strs ss))"
| "ToString rt (JObj kvs) =
     (if map_of kvs ''toString'' \<noteq> None
      then Inl (TypeError ''Cannot convert object to primitive value'')
      else Inr ''[object Object]'')"

text \<open>\<^verbatim>\<open>ToNumber\<close>: an array or an object goes through its string.\<close>

fun ToNumber :: "runtime \<Rightarrow> jsval \<Rightarrow> js_error + jsnum" where
  "ToNumber rt JUndefined = Inr NaN"
| "ToNumber rt JNull = Inr (Fin 0)"
| "ToNumber rt (JBool b) = Inr (Fin (if b then 1 else 0))"
| "ToNumber rt (JNum n) = Inr n"
| "ToNumber rt (JStr s) = Inr (str_to_num rt s)"
| "ToNumber rt v =
     (case ToString rt v of Inl e \<Rightarrow> Inl e | Inr s \<Rightarrow> Inr (str_to_num rt s))"

text \<open>
  \<^verbatim>\<open>v.toFixed(2)\<close> for a \<open>v\<close> that is neither \<^verbatim>\<open>null\<close> nor \<^verbatim>\<open>undefined\<close>; \<open>e\<close> is the text of the
  expression, for the engine's message. Only a number has the method.
\<close>

fun call_toFixed2 :: "runtime \<Rightarrow> string \<Rightarrow> jsval \<Rightarrow> js_error + jsval" where
  "call_toFixed2 rt e (JNum n) = Inr (JStr (toFixed2 rt n))"
| "call_toFixed2 rt e v = Inl (TypeError (e @ ''.toFixed is not a function''))"

text \<open>
  \<^verbatim>\<open>v.toString()\<close> for a \<open>v\<close> that is neither \<^verbatim>\<open>null\<close> nor \<^verbatim>\<open>undefined\<close>; \<open>e\<close> is the text of
  the callee, for the engine's message.
\<close>

fun call_toString :: "runtime \<Rightarrow> string \<Rightarrow> jsval \<Rightarrow> js_error + jsval" where
  "call_toString rt e (JObj kvs) =
     (if map_of kvs ''toString'' \<noteq> None
      then Inl (TypeError (e @ '' is not a function''))
      else Inr (JStr ''[object Object]''))"
| "call_toString rt e v =
     (case ToString rt v of Inl err \<Rightarrow> Inl err | Inr s \<Rightarrow> Inr (JStr s))"

section \<open>Configuration, collaborators and effects\<close>

text \<open>\<^verbatim>\<open>process.env\<close>: a variable is a string, or \<^verbatim>\<open>undefined\<close> when it is not set.\<close>

record process_env =
  STRIPE_SECRET_KEY :: "string option"
  STRIPE_WEBHOOK_SECRET :: "string option"
  EMAIL_USER :: "string option"
  EMAIL_PASS :: "string option"
  BUSINESS_EMAIL :: "string option"
  NODE_ENV :: "string option"

definition str_or_undefined :: "string option \<Rightarrow> jsval" where
  "str_or_undefined x = (case x of None \<Rightarrow> JUndefined | Some s \<Rightarrow> JStr s)"

text \<open>
  \<^verbatim>\<open>emailTransporter\<close> is assigned once, at start, when both credentials are truthy; the
  handlers test it before every use.
\<close>

definition emailTransporter :: "process_env \<Rightarrow> bool" where
  "emailTransporter env =
     truthy (js_and (str_or_undefined (EMAIL_USER env)) (str_or_undefined (EMAIL_PASS env)))"

text \<open>What \<^verbatim>\<open>req.body\<close> holds on the webhook route, where \<^verbatim>\<open>express.raw\<close> keeps the bytes.\<close>

datatype raw_body = Buffer string | NoBody

text \<open>
  The collaborators outside the program, each an arbitrary function of what the program hands
  it: the payment provider's \<^verbatim>\<open>paymentIntents.create\<close> and \<^verbatim>\<open>paymentIntents.retrieve\<close>, which
  return an intent or throw; its \<^verbatim>\<open>webhooks.constructEvent\<close> on the body, the signature header
  and the secret, which returns the event or throws; and the clock, read as
  \<^verbatim>\<open>toISOString()\<close> and as \<^verbatim>\<open>toLocaleDateString()\<close>.
\<close>

record services =
  paymentIntents_create :: "jsval \<Rightarrow> js_error + jsval"
  paymentIntents_retrieve :: "jsval \<Rightarrow> js_error + jsval"
  constructEvent :: "raw_body \<Rightarrow> string option \<Rightarrow> string \<Rightarrow> js_error + jsval"
  toISOString :: string
  toLocaleDateString :: string

text \<open>
  The two HTML documents are fixed templates; a document is kept as its template and the
  strings interpolated into it, in the order of the source.
\<close>

datatype html_doc =
    BusinessHtml string string string string string string
  | CustomerHtml string string string string

record mail =
  mail_from :: jsval
  mail_to :: jsval
  subject :: string
  html :: html_doc

text \<open>
  What a handler does to the outside: a call of the payment provider, or a call of
  \<^verbatim>\<open>emailTransporter.sendMail\<close>. Whether a send succeeds is only logged, so it is not an input.
\<close>

datatype effect = StripeCreate jsval | StripeRetrieve jsval | SendMail mail

datatype resp_body = Json jsval | Text string

record response =
  status :: nat
  payload :: resp_body

definition json :: "nat \<Rightarrow> (string \<times> jsval) list \<Rightarrow> response" where
  "json c kvs = \<lparr>status = c, payload = Json (JObj kvs)\<rparr>"

section \<open>The CORS gate\<close>

definition allowedOrigins :: "string list" where
  "allowedOrigins =
     [''http://localhost:5173'',
      ''http://localhost:3000'',
      ''https://pakbh.com'',
      ''https://www.pakbh.com'',
      ''https://delicate-banoffee-384c86.netlify.app'',
      ''https://blenhairs.netlify.app'',
      ''https://serveforpakbh.onrender.com'']"

definition indexOf :: "string list \<Rightarrow> string \<Rightarrow> int" where
  "indexOf xs x = (if x \<in> set xs then int (length (takeWhile (\<lambda>y. y \<noteq> x) xs)) else - 1)"

text \<open>
  The \<^verbatim>\<open>origin\<close> callback, on the request's \<^verbatim>\<open>Origin\<close> header: \<open>Inr True\<close> is
  \<^verbatim>\<open>callback(null, true)\<close>, \<open>Inl e\<close> is \<^verbatim>\<open>callback(e, false)\<close>, which the framework passes to
  its error path.
\<close>

definition cors_origin :: "string option \<Rightarrow> js_error + bool" where
  "cors_origin origin =
     (if \<not> truthy (str_or_undefined origin) then Inr True
      else if indexOf allowedOrigins (the origin) = - 1
      then Inl (JsError ''The CORS policy for this site does not allow access from the specified Origin.'' None)
      else Inr True)"

section \<open>The email notifier\<close>

text \<open>
  The first half of \<^verbatim>\<open>sendOrderEmails\<close>: the customer's email and name, the amount, the payment
  id and the label of the method, read from a card intent or from a PayPal record.
\<close>

definition order_summary ::
  "runtime \<Rightarrow> jsval \<Rightarrow> jsval \<Rightarrow> jsval \<Rightarrow> js_error + (jsval \<times> jsval \<times> jsval \<times> jsval \<times> string)" where
  "order_summary rt paymentData customer totalAmount =
     (case get paymentData ''object'' of
        Inl e \<Rightarrow> Inl e
      | Inr ob \<Rightarrow>
          if ob = JStr ''payment_intent'' then
            (case ToNumber rt (jsprop paymentData ''amount'') of
               Inl e \<Rightarrow> Inl e
             | Inr n \<Rightarrow>
                 Inr (js_or (jsprop paymentData ''receipt_email'')
                        (opt (jsprop paymentData ''metadata'') ''customer_email''),
                      js_or (opt (jsprop paymentData ''metadata'') ''customer_name'') (JStr ''Customer''),
                      JStr (toFixed2 rt (num_div rt n (Fin 100))),
                      jsprop paymentData ''id'',
                      ''Credit Card (Stripe)''))
          else
            (case (if nullish totalAmount then Inr JUndefined
                   else call_toFixed2 rt ''totalAmount?'' totalAmount) of
               Inl e \<Rightarrow> Inl e
             | Inr t \<Rightarrow>
                 Inr (js_or (opt customer ''email'') (opt (jsprop paymentData ''payer'') ''email_address''),
                      js_or (opt customer ''name'') (JStr ''Customer''),
                      js_or t (opt (jsprop paymentData ''amount'') ''value''),
                      jsprop paymentData ''id'',
                      ''PayPal'')))"

text \<open>The two option objects; every interpolation of a template literal is a \<^verbatim>\<open>ToString\<close>.\<close>

definition email_options ::
  "runtime \<Rightarrow> process_env \<Rightarrow> services \<Rightarrow> jsval \<times> jsval \<times> jsval \<times> jsval \<times> string \<Rightarrow> js_error + mail list" where
  "email_options rt env svc s =
     (case s of (customerEmail, customerName, amount, paymentId, paymentMethod) \<Rightarrow>
        (case ToString rt paymentId of Inl e \<Rightarrow> Inl e | Inr pid \<Rightarrow>
        (case ToString rt amount of Inl e \<Rightarrow> Inl e | Inr amt \<Rightarrow>
        (case ToString rt customerName of Inl e \<Rightarrow> Inl e | Inr name \<Rightarrow>
        (case ToString rt customerEmail of Inl e \<Rightarrow> Inl e | Inr email \<Rightarrow>
           Inr [\<lparr>mail_from = str_or_undefined (EMAIL_USER env),
                 mail_to = js_or (str_or_undefined (BUSINESS_EMAIL env)) (JStr ''anaroyes7@gmail.com''),
                 subject = ''New Order - Payment '' @ pid,
                 html = BusinessHtml pid amt paymentMethod name email (toLocaleDateString svc)\<rparr>,
                \<lparr>mail_from = str_or_undefined (EMAIL_USER env),
                 mail_to = customerEmail,
                 subject = ''Order Confirmation - Payment '' @ pid,
                 html = CustomerHtml pid name amt paymentMethod\<rparr>])))))"

text \<open>
  \<^verbatim>\<open>sendOrderEmails\<close>, as the list of mails handed to \<^verbatim>\<open>sendMail\<close>. The parameters default to
  \<^verbatim>\<open>null\<close>; \<^verbatim>\<open>items\<close> is not read. Everything is inside one \<^verbatim>\<open>try\<close>, whose \<^verbatim>\<open>catch\<close> only logs:
  an error before the sends leaves no mail, and nothing is ever thrown to the caller. Both
  option objects are built before \<^verbatim>\<open>Promise.all\<close> starts the two sends.
\<close>

definition sendOrderEmails ::
  "runtime \<Rightarrow> process_env \<Rightarrow> services \<Rightarrow> jsval \<Rightarrow> jsval \<Rightarrow> jsval \<Rightarrow> jsval \<Rightarrow> mail list" where
  "sendOrderEmails rt env svc paymentData customer items totalAmount =
     (case order_summary rt paymentData
             (if customer = JUndefined then JNull else customer)
             (if totalAmount = JUndefined then JNull else totalAmount) of
        Inl e \<Rightarrow> []
      | Inr s \<Rightarrow>
          if \<not> truthy (fst s) then []
          else (case email_options rt env svc s of Inl e \<Rightarrow> [] | Inr ms \<Rightarrow> ms))"

text \<open>The guarded call that three handlers make: \<^verbatim>\<open>if (emailTransporter) await sendOrderEmails(...)\<close>.\<close>

definition notify ::
  "runtime \<Rightarrow> process_env \<Rightarrow> services \<Rightarrow> jsval \<Rightarrow> jsval \<Rightarrow> jsval \<Rightarrow> jsval \<Rightarrow> effect list" where
  "notify rt env svc paymentData customer items totalAmount =
     (if emailTransporter env
      then map SendMail (sendOrderEmails rt env svc paymentData customer items totalAmount)
      else [])"

section \<open>The route handlers\<close>

text \<open>
  A handler is a function from the request to the response it sends and the effects it has,
  in order. The response body is the value handed to \<^verbatim>\<open>res.json\<close> or \<^verbatim>\<open>res.send\<close>, before
  serialisation; \<^verbatim>\<open>res.json\<close> without \<^verbatim>\<open>res.status\<close> answers 200. Calls of \<^verbatim>\<open>console\<close> are left
  out, but an argument of theirs that can throw is evaluated.

  The body parser leaves an object or an array in \<^verbatim>\<open>req.body\<close>, an empty object when it parsed
  nothing. Each handler's first branch is what its destructuring would do on \<^verbatim>\<open>null\<close> or
  \<^verbatim>\<open>undefined\<close>; the properties below are about the bodies a handler can receive.
\<close>

text \<open>The error of \<^verbatim>\<open>const { k, ... } = req.body\<close> on a body that is \<^verbatim>\<open>null\<close> or \<^verbatim>\<open>undefined\<close>.\<close>

definition destructure_error :: "string \<Rightarrow> jsval \<Rightarrow> js_error" where
  "destructure_error k v =
     TypeError (''Cannot destructure property '' @ [CHR 0x27] @ k @ [CHR 0x27] @ '' of '' @
                [CHR 0x27] @ ''req.body'' @ [CHR 0x27] @ '' as it is '' @ type_name v @ ''.'')"

subsection \<open>POST /api/create-payment-intent\<close>

definition invalid_amount :: response where
  "invalid_amount =
     json 400 [(''error'', JStr ''Invalid amount''),
               (''details'', JStr ''Amount must be at least $0.50'')]"

definition create_failed :: "js_error \<Rightarrow> response" where
  "create_failed e =
     json 500 [(''success'', JBool False),
               (''error'', js_or (JStr (message e)) (JStr ''Failed to create payment intent'')),
               (''code'', js_or (str_or_undefined (etype e)) (JStr ''unknown_error''))]"

text \<open>\<^verbatim>\<open>items?.length?.toString() || '0'\<close>\<close>

definition items_count :: "runtime \<Rightarrow> jsval \<Rightarrow> js_error + jsval" where
  "items_count rt items =
     (if nullish items \<or> nullish (jsprop items ''length'') then Inr (JStr ''0'')
      else (case call_toString rt ''items?.length?.toString'' (jsprop items ''length'') of
              Inl e \<Rightarrow> Inl e
            | Inr s \<Rightarrow> Inr (js_or s (JStr ''0''))))"

text \<open>The argument of \<^verbatim>\<open>stripe.paymentIntents.create\<close>, built from a body that is an object.\<close>

definition create_params :: "runtime \<Rightarrow> jsval \<Rightarrow> js_error + jsval" where
  "create_params rt body =
     (let amount = jsprop body ''amount'';
          currency = (if jsprop body ''currency'' = JUndefined then JStr ''usd''
                      else jsprop body ''currency'');
          customer = jsprop body ''customer'';
          items = jsprop body ''items'';
          metadata = jsprop body ''metadata''
      in case ToNumber rt amount of
           Inl e \<Rightarrow> Inl e
         | Inr n \<Rightarrow>
             (case items_count rt items of
                Inl e \<Rightarrow> Inl e
              | Inr c \<Rightarrow>
                  Inr (JObj
                    [(''amount'', JNum (Math_round n)),
                     (''currency'', currency),
                     (''automatic_payment_methods'', JObj [(''enabled'', JBool True)]),
                     (''metadata'', JObj
                        (AList.update ''items_count'' c
                          (AList.update ''customer_name'' (js_or (opt customer ''name'') (JStr []))
                            (AList.update ''customer_email'' (js_or (opt customer ''email'') (JStr []))
                              (own_props metadata))))),
                     (''receipt_email'', opt customer ''email''),
                     (''description'', JStr ''Premium Afro Kinky Bulk Hair - Blen Hairs USA'')])))"

definition create_payment_intent :: "runtime \<Rightarrow> services \<Rightarrow> jsval \<Rightarrow> response \<times> effect list" where
  "create_payment_intent rt svc body =
     (if nullish body then (create_failed (destructure_error ''amount'' body), [])
      else if \<not> truthy (jsprop body ''amount'') then (invalid_amount, [])
      else (case ToNumber rt (jsprop body ''amount'') of
              Inl e \<Rightarrow> (create_failed e, [])
            | Inr n \<Rightarrow>
                if num_less n 50 then (invalid_amount, [])
                else (case create_params rt body of
                        Inl e \<Rightarrow> (create_failed e, [])
                      | Inr params \<Rightarrow>
                          (case paymentIntents_create svc params of
                             Inl e \<Rightarrow> (create_failed e, [StripeCreate params])
                           | Inr paymentIntent \<Rightarrow>
                               (case get paymentIntent ''id'' of
                                  Inl e \<Rightarrow> (create_failed e, [StripeCreate params])
                                | Inr i \<Rightarrow>
                                    (json 200
                                       [(''success'', JBool True),
                                        (''client_secret'', jsprop paymentIntent ''client_secret''),
                                        (''payment_intent_id'', i)],
                                     [StripeCreate params]))))))"

subsection \<open>POST /api/process-paypal-payment\<close>

definition missing_payment_information :: response where
  "missing_payment_information =
     json 400 [(''success'', JBool False),
               (''error'', JStr ''Missing required payment information'')]"

definition paypal_failed :: "js_error \<Rightarrow> response" where
  "paypal_failed e =
     json 500 [(''success'', JBool False),
               (''error'', js_or (JStr (message e)) (JStr ''Failed to process PayPal payment''))]"

definition paypalPayment :: "services \<Rightarrow> jsval \<Rightarrow> jsval \<Rightarrow> jsval \<Rightarrow> jsval \<Rightarrow> jsval" where
  "paypalPayment svc orderID payerID fixed customer =
     JObj [(''id'', orderID),
           (''status'', JStr ''COMPLETED''),
           (''amount'', JObj [(''currency_code'', JStr ''USD''), (''value'', fixed)]),
           (''payer'', JObj [(''payer_id'', payerID), (''email_address'', opt customer ''email'')]),
           (''create_time'', JStr (toISOString svc)),
           (''payment_method'', JStr ''PayPal'')]"

definition process_paypal_payment ::
  "runtime \<Rightarrow> process_env \<Rightarrow> services \<Rightarrow> jsval \<Rightarrow> response \<times> effect list" where
  "process_paypal_payment rt env svc body =
     (if nullish body then (paypal_failed (destructure_error ''orderID'' body), [])
      else
        let orderID = jsprop body ''orderID'';
            payerID = jsprop body ''payerID'';
            amount = jsprop body ''amount'';
            customer = jsprop body ''customer'';
            items = jsprop body ''items''
        in if \<not> truthy orderID \<or> \<not> truthy payerID \<or> \<not> truthy amount
           then (missing_payment_information, [])
           else (case call_toFixed2 rt ''amount'' amount of
                   Inl e \<Rightarrow> (paypal_failed e, [])
                 | Inr fixed \<Rightarrow>
                     (json 200
                        [(''success'', JBool True),
                         (''payment'', paypalPayment svc orderID payerID fixed customer)],
                      notify rt env svc (paypalPayment svc orderID payerID fixed customer)
                        customer items amount)))"

subsection \<open>POST /api/confirm-payment\<close>

definition confirm_failed :: "js_error \<Rightarrow> response" where
  "confirm_failed e =
     json 500 [(''success'', JBool False),
               (''error'', js_or (JStr (message e)) (JStr ''Failed to confirm payment''))]"

definition confirm_payment ::
  "runtime \<Rightarrow> process_env \<Rightarrow> services \<Rightarrow> jsval \<Rightarrow> response \<times> effect list" where
  "confirm_payment rt env svc body =
     (if nullish body then (confirm_failed (destructure_error ''payment_intent_id'' body), [])
      else
        let payment_intent_id = jsprop body ''payment_intent_id''
        in if \<not> truthy payment_intent_id
           then (json 400 [(''success'', JBool False),
                           (''error'', JStr ''Payment intent ID is required'')], [])
           else (case paymentIntents_retrieve svc payment_intent_id of
                   Inl e \<Rightarrow> (confirm_failed e, [StripeRetrieve payment_intent_id])
                 | Inr paymentIntent \<Rightarrow>
                     (case get paymentIntent ''status'' of
                        Inl e \<Rightarrow> (confirm_failed e, [StripeRetrieve payment_intent_id])
                      | Inr st \<Rightarrow>
                          if st = JStr ''succeeded''
                          then (json 200 [(''success'', JBool True),
                                          (''payment_intent'', paymentIntent)],
                                StripeRetrieve payment_intent_id #
                                notify rt env svc paymentIntent JUndefined JUndefined JUndefined)
                          else (case ToString rt st of
                                  Inl e \<Rightarrow> (confirm_failed e, [StripeRetrieve payment_intent_id])
                                | Inr s \<Rightarrow>
                                    (json 200 [(''success'', JBool False),
                                               (''status'', st),
                                               (''message'', JStr (''Payment status is '' @ s))],
                                     [StripeRetrieve payment_intent_id])))))"

subsection \<open>POST /api/webhook\<close>

definition webhook_failed :: response where
  "webhook_failed = json 500 [(''error'', JStr ''Failed to process webhook event'')]"

text \<open>
  The \<^verbatim>\<open>switch\<close> on the type of a verified event, as the effects it has, or the error that its
  \<^verbatim>\<open>try\<close> catches. The notifier throws nothing, so an error leaves no effect behind.
\<close>

definition dispatch_event :: "runtime \<Rightarrow> process_env \<Rightarrow> services \<Rightarrow> jsval \<Rightarrow> js_error + effect list" where
  "dispatch_event rt env svc event =
     (case get event ''type'' of
        Inl e \<Rightarrow> Inl e
      | Inr ty \<Rightarrow>
          if ty = JStr ''payment_intent.succeeded'' then
            (case get (jsprop event ''data'') ''object'' of
               Inl e \<Rightarrow> Inl e
             | Inr paymentIntent \<Rightarrow>
                 (case get paymentIntent ''id'' of
                    Inl e \<Rightarrow> Inl e
                  | Inr i \<Rightarrow> Inr (notify rt env svc paymentIntent JUndefined JUndefined JUndefined)))
          else if ty = JStr ''payment_intent.payment_failed'' then
            (case get (jsprop event ''data'') ''object'' of
               Inl e \<Rightarrow> Inl e
             | Inr failedPayment \<Rightarrow>
                 (case get failedPayment ''id'' of
                    Inl e \<Rightarrow> Inl e
                  | Inr i \<Rightarrow> Inr []))
          else (case ToString rt ty of Inl e \<Rightarrow> Inl e | Inr s \<Rightarrow> Inr []))"

text \<open>The handler, on the header \<^verbatim>\<open>stripe-signature\<close> and the raw body.\<close>

definition webhook ::
  "runtime \<Rightarrow> process_env \<Rightarrow> services \<Rightarrow> string option \<Rightarrow> raw_body \<Rightarrow> response \<times> effect list" where
  "webhook rt env svc sig body =
     (if \<not> truthy (str_or_undefined (STRIPE_WEBHOOK_SECRET env))
      then (json 500 [(''error'', JStr ''Webhook secret not configured'')], [])
      else (case constructEvent svc body sig (the (STRIPE_WEBHOOK_SECRET env)) of
              Inl err \<Rightarrow> (\<lparr>status = 400, payload = Text (''Webhook Error: '' @ message err)\<rparr>, [])
            | Inr event \<Rightarrow>
                (case dispatch_event rt env svc event of
                   Inl e \<Rightarrow> (webhook_failed, [])
                 | Inr effs \<Rightarrow> (json 200 [(''received'', JBool True)], effs))))"

subsection \<open>GET /api/health\<close>

definition health :: "process_env \<Rightarrow> services \<Rightarrow> response" where
  "health env svc =
     json 200
       [(''status'', JStr ''OK''),
        (''timestamp'', JStr (toISOString svc)),
        (''market'', JStr ''United States''),
        (''location'', JStr ''Miami, FL''),
        (''stripe_connected'', JBool True),
        (''stripe_key_configured'', JBool (truthy (str_or_undefined (STRIPE_SECRET_KEY env)))),
        (''email_configured'',
           JBool (truthy (js_and (str_or_undefined (EMAIL_USER env))
                                 (str_or_undefined (EMAIL_PASS env))))),
        (''environment'', js_or (str_or_undefined (NODE_ENV env)) (JStr ''development'')),
        (''supported_payment_methods'', JArr [JStr ''stripe'', JStr ''paypal'']),
        (''shipping_zones'',
           JArr [JStr ''US'', JStr ''Canada'', JStr ''Mexico'', JStr ''Caribbean'',
                 JStr ''International'']),
        (''cors_allowed_origins'', JArr (map JStr allowedOrigins))]"

section \<open>Example configuration, collaborators and requests\<close>

text \<open>
  Of the three built-ins, the examples below call only the division, on 2000 and 100, where the
  quotient is exact.
\<close>

definition example_runtime :: runtime where
  "example_runtime =
     \<lparr>str_to_num = (\<lambda>s. NaN),
      num_to_str = (\<lambda>n. []),
      num_div = (\<lambda>a b. case (a, b) of
                   (Fin x, Fin y) \<Rightarrow> (if y = 0 then NaN else Fin (x / y))
                 | _ \<Rightarrow> NaN)\<rparr>"

definition example_env :: process_env where
  "example_env =
     \<lparr>STRIPE_SECRET_KEY = Some ''sk_test_1'',
      STRIPE_WEBHOOK_SECRET = Some ''whsec_1'',
      EMAIL_USER = Some ''shop@example.com'',
      EMAIL_PASS = Some ''app-password'',
      BUSINESS_EMAIL = None,
      NODE_ENV = None\<rparr>"

definition example_intent :: "string \<Rightarrow> jsval" where
  "example_intent st =
     JObj [(''id'', JStr ''pi_1''),
           (''object'', JStr ''payment_intent''),
           (''amount'', JNum (Fin 2000)),
           (''currency'', JStr ''usd''),
           (''status'', JStr st),
           (''client_secret'', JStr ''pi_1_secret''),
           (''receipt_email'', JStr ''a@b.com''),
           (''metadata'', JObj [(''customer_name'', JStr ''Ada'')])]"

text \<open>
  A provider that creates the intent above, retrieves it as succeeded under the id \<^verbatim>\<open>pi_1\<close> and
  as processing under any other id, and verifies a webhook by accepting the signature
  \<^verbatim>\<open>good\<close>, the event's type being the text of the body.
\<close>

definition example_services :: services where
  "example_services =
     \<lparr>paymentIntents_create = (\<lambda>p. Inr (example_intent ''requires_payment_method'')),
      paymentIntents_retrieve =
        (\<lambda>i. if i = JStr ''pi_1'' then Inr (example_intent ''succeeded'')
              else Inr (example_intent ''processing'')),
      constructEvent =
        (\<lambda>b sig secret.
           if sig = Some ''good''
           then Inr (JObj [(''type'', JStr (case b of Buffer s \<Rightarrow> s | NoBody \<Rightarrow> [])),
                           (''data'', JObj [(''object'', example_intent ''succeeded'')])])
           else Inl (JsError ''No signatures found matching the expected signature for payload''
                       (Some ''StripeSignatureVerificationError''))),
      toISOString = ''2024-05-01T12:00:00.000Z'',
      toLocaleDateString = ''5/1/2024''\<rparr>"

text \<open>The double nearest to 19.99.\<close>

definition d19_99 :: rat where
  "d19_99 = 5626684784446013 / 281474976710656"

definition example_paypal_body :: "jsval \<Rightarrow> jsval" where
  "example_paypal_body amount =
     JObj [(''orderID'', JStr ''O1''),
           (''payerID'', JStr ''P1''),
           (''amount'', amount),
           (''customer'', JObj [(''email'', JStr ''a@b.com'')])]"

section \<open>Properties\<close>

subsection \<open>Basic facts\<close>

lemma nullish_simps [simp]:
  "nullish JUndefined" "nullish JNull" "\<not> nullish (JBool b)" "\<not> nullish (JNum n)"
  "\<not> nullish (JStr s)" "\<not> nullish (JArr xs)" "\<not> nullish (JObj kvs)"
  by (simp_all add: nullish_def)

lemma jsprop_nullish [simp]: "nullish v \<Longrightarrow> jsprop v k = JUndefined"
  by (auto simp: nullish_def)

lemma get_not_nullish [simp]: "\<not> nullish v \<Longrightarrow> get v k = Inr (jsprop v k)"
  by (simp add: get_def)

lemma jsprop_defined_not_nullish: "jsprop v k \<noteq> JUndefined \<Longrightarrow> \<not> nullish v"
  by (auto simp: nullish_def)

lemma indexOf_minus_one: "indexOf xs x = - 1 \<longleftrightarrow> x \<notin> set xs"
  by (simp add: indexOf_def)

subsection \<open>The webhook's signature check\<close>

text \<open>
  Claim C3. With the webhook secret configured, a request whose signature
  \<^verbatim>\<open>constructEvent\<close> rejects is answered 400 with the text \<^verbatim>\<open>Webhook Error: \<close> followed by the
  verification error's message, and the handler has no effect at all: no mail is sent and
  nothing else runs, whatever the body, and so whatever event type it holds.
\<close>

theorem webhook_invalid_signature:
  assumes "STRIPE_WEBHOOK_SECRET env = Some secret" and "secret \<noteq> []"
    and "constructEvent svc body sig secret = Inl err"
  shows "webhook rt env svc sig body =
           (\<lparr>status = 400, payload = Text (''Webhook Error: '' @ message err)\<rparr>, [])"
  using assms by (simp add: webhook_def str_or_undefined_def)

theorem webhook_invalid_signature_witness:
  "webhook example_runtime example_env example_services (Some ''bad'')
      (Buffer ''payment_intent.succeeded'') =
   (\<lparr>status = 400,
     payload = Text ''Webhook Error: No signatures found matching the expected signature for payload''\<rparr>,
    [])"
proof -
  have "webhook example_runtime example_env example_services (Some ''bad'')
          (Buffer ''payment_intent.succeeded'') =
        (\<lparr>status = 400,
          payload = Text (''Webhook Error: '' @
            message (JsError ''No signatures found matching the expected signature for payload''
                       (Some ''StripeSignatureVerificationError'')))\<rparr>, [])"
    by (rule webhook_invalid_signature [where secret = "''whsec_1''"])
       (simp_all add: example_env_def example_services_def)
  then show ?thesis by simp
qed

subsection \<open>PayPal: an amount that is not a number\<close>

text \<open>
  Claim C10, as stated, promises the 500 whenever \<^verbatim>\<open>orderID\<close> and \<^verbatim>\<open>payerID\<close> are present and
  \<^verbatim>\<open>amount\<close> is a truthy value that is not a number. The validation tests truthiness, not
  presence: a request whose \<^verbatim>\<open>orderID\<close> is present but empty, with a string amount, is answered
  400.
\<close>

theorem paypal_empty_orderID_counterexample:
  "map_of [(''orderID'', JStr []), (''payerID'', JStr ''P1''), (''amount'', JStr ''19.99'')]
      ''orderID'' = Some (JStr [])
   \<and> process_paypal_payment example_runtime example_env example_services
       (JObj [(''orderID'', JStr []), (''payerID'', JStr ''P1''), (''amount'', JStr ''19.99'')]) =
     (json 400 [(''success'', JBool False),
                (''error'', JStr ''Missing required payment information'')], [])"
  by (simp add: process_paypal_payment_def missing_payment_information_def)

text \<open>
  Claim C10, amended. When \<^verbatim>\<open>orderID\<close>, \<^verbatim>\<open>payerID\<close> and \<^verbatim>\<open>amount\<close> are all truthy and \<^verbatim>\<open>amount\<close> is
  not a number (a string, say), the validation passes and \<^verbatim>\<open>amount.toFixed(2)\<close> throws: the
  answer is 500 with \<^verbatim>\<open>success: false\<close> and the engine's message, neither the 400 of the
  validation nor the 200 of a success, and no mail is sent.
\<close>

theorem paypal_non_number_amount:
  assumes "\<not> nullish body"
    and "truthy (jsprop body ''orderID'')" and "truthy (jsprop body ''payerID'')"
    and "truthy (jsprop body ''amount'')"
    and "\<forall>n. jsprop body ''amount'' \<noteq> JNum n"
  shows "process_paypal_payment rt env svc body =
           (json 500 [(''success'', JBool False),
                      (''error'', JStr ''amount.toFixed is not a function'')], [])"
proof -
  have "call_toFixed2 rt ''amount'' (jsprop body ''amount'') =
          Inl (TypeError ''amount.toFixed is not a function'')"
    using assms(5) by (cases "jsprop body ''amount''") simp_all
  then show ?thesis
    using assms(1-4)
    by (simp add: process_paypal_payment_def paypal_failed_def TypeError_def js_or_def)
qed

theorem paypal_non_number_amount_witness:
  "process_paypal_payment example_runtime example_env example_services
      (example_paypal_body (JStr ''19.99'')) =
   (json 500 [(''success'', JBool False),
              (''error'', JStr ''amount.toFixed is not a function'')], [])"
  by (rule paypal_non_number_amount) (simp_all add: example_paypal_body_def)

subsection \<open>The CORS gate\<close>

text \<open>
  Claim C8, as stated, says that a request is let through when its \<^verbatim>\<open>Origin\<close> header is absent
  or on the allow-list and fails otherwise. The test for absence is \<^verbatim>\<open>!origin\<close>, which an empty
  header value passes too: a request with an empty \<^verbatim>\<open>Origin\<close>, which is not on the list, is
  let through.
\<close>

theorem cors_origin_empty_counterexample:
  "cors_origin (Some []) = Inr True \<and> [] \<notin> set allowedOrigins"
  by (simp add: cors_origin_def str_or_undefined_def allowedOrigins_def)

text \<open>
  Claim C8, amended. The gate lets a request through when its \<^verbatim>\<open>Origin\<close> header is absent, empty
  or a member of the allow-list, and otherwise hands the framework's error path an error with
  the fixed CORS message. The allow-list is the constant \<open>allowedOrigins\<close>: no function of the
  program takes it as state or returns a changed one.
\<close>

theorem cors_origin_decision:
  "cors_origin origin =
     (if origin = None \<or> origin = Some [] \<or> the origin \<in> set allowedOrigins
      then Inr True
      else Inl (JsError
        ''The CORS policy for this site does not allow access from the specified Origin.'' None))"
  by (cases origin) (auto simp: cors_origin_def str_or_undefined_def indexOf_minus_one)

subsection \<open>The health check\<close>

text \<open>
  Claim C7. The health response depends on the configuration only through three booleans,
  whether the payment key, the email user and the email password are set to a non-empty value
  (what \<^verbatim>\<open>!!\<close> and \<^verbatim>\<open>&&\<close> test), and through the environment mode, which is no secret: two
  configurations that agree on these give the same response at the same clock reading,
  whatever the values of the payment key, the webhook secret, the email credentials and the
  business address. So no secret's value is in the body.
\<close>

theorem health_hides_secrets:
  assumes "truthy (str_or_undefined (STRIPE_SECRET_KEY e1)) =
           truthy (str_or_undefined (STRIPE_SECRET_KEY e2))"
    and "truthy (str_or_undefined (EMAIL_USER e1)) = truthy (str_or_undefined (EMAIL_USER e2))"
    and "truthy (str_or_undefined (EMAIL_PASS e1)) = truthy (str_or_undefined (EMAIL_PASS e2))"
    and "NODE_ENV e1 = NODE_ENV e2"
    and "toISOString s1 = toISOString s2"
  shows "health e1 s1 = health e2 s2"
  using assms by (simp add: health_def js_and_def)

theorem health_hides_secrets_witness:
  "health example_env example_services =
   health \<lparr>STRIPE_SECRET_KEY = Some ''sk_live_2'',
           STRIPE_WEBHOOK_SECRET = None,
           EMAIL_USER = Some ''orders@example.org'',
           EMAIL_PASS = Some ''hunter2'',
           BUSINESS_EMAIL = Some ''owner@example.org'',
           NODE_ENV = None\<rparr> example_services"
  by (rule health_hides_secrets) (simp_all add: example_env_def str_or_undefined_def)

subsection \<open>Decimal digits of \<^verbatim>\<open>toFixed(2)\<close>\<close>

lemma dec_small: "n < 10 \<Longrightarrow> dec n = [''0123456789'' ! n]"
  by (subst dec.simps) simp

lemma dec_step: "10 \<le> n \<Longrightarrow> dec n = dec (n div 10) @ [''0123456789'' ! (n mod 10)]"
  by (subst dec.simps) simp

lemma dec_nonempty [simp]: "dec n \<noteq> []"
  by (subst dec.simps) simp

lemma dec_two: "10 \<le> n \<Longrightarrow> n < 100 \<Longrightarrow>
    dec n = [''0123456789'' ! (n div 10), ''0123456789'' ! (n mod 10)]"
  by (simp add: dec_step dec_small)

lemma dec_hundreds: "100 \<le> n \<Longrightarrow>
    dec n = dec (n div 100) @ [''0123456789'' ! (n div 10 mod 10), ''0123456789'' ! (n mod 10)]"
proof -
  assume h: "100 \<le> n"
  then have "10 \<le> n" "10 \<le> n div 10" by auto
  then have "dec n = (dec (n div 10 div 10) @ [''0123456789'' ! (n div 10 mod 10)]) @
                      [''0123456789'' ! (n mod 10)]"
    by (simp add: dec_step)
  moreover have "n div 10 div 10 = n div 100"
    by (simp add: div_mult2_eq [symmetric])
  ultimately show ?thesis by simp
qed

lemma fixed2_digits:
  "fixed2 x =
     (let n = nat \<lfloor>x * 100 + 1 / 2\<rfloor>
      in dec (n div 100) @ ''.'' @ [''0123456789'' ! (n div 10 mod 10), ''0123456789'' ! (n mod 10)])"
proof -
  define n where "n = nat \<lfloor>x * 100 + 1 / 2\<rfloor>"
  consider "n < 10" | "10 \<le> n" "n < 100" | "100 \<le> n" by linarith
  then have "(let m = dec n;
          m = (if length m \<le> 2 then replicate (3 - length m) (CHR ''0'') @ m else m)
      in take (length m - 2) m @ ''.'' @ drop (length m - 2) m) =
     dec (n div 100) @ ''.'' @ [''0123456789'' ! (n div 10 mod 10), ''0123456789'' ! (n mod 10)]"
  proof cases
    case 1
    then show ?thesis by (simp add: dec_small Let_def numeral_2_eq_2 numeral_3_eq_3)
  next
    case 2
    then have "n div 100 = 0" "n div 10 mod 10 = n div 10" by auto
    with 2 show ?thesis by (simp add: dec_two dec_small Let_def)
  next
    case 3
    then show ?thesis by (simp add: dec_hundreds Let_def)
  qed
  then show ?thesis by (simp add: fixed2_def n_def Let_def)
qed

lemma notify_sends_only_mail: "e \<in> set (notify rt env svc p c i t) \<Longrightarrow> \<exists>m. e = SendMail m"
  by (auto simp: notify_def split: if_splits)

lemma toFixed2_d19_99: "toFixed2 rt (Fin d19_99) = ''19.99''"
  unfolding d19_99_def by code_simp

subsection \<open>PayPal: validation and the record built\<close>

text \<open>
  Claim C1, as stated, promises 200 whenever \<^verbatim>\<open>orderID\<close>, \<^verbatim>\<open>payerID\<close> and \<^verbatim>\<open>amount\<close> are all
  present. The request of the spec's example with the amount sent as the string \<^verbatim>\<open>"19.99"\<close> has
  all three, each truthy, and is answered 500.
\<close>

theorem paypal_present_fields_counterexample:
  "truthy (jsprop (example_paypal_body (JStr ''19.99'')) ''orderID'') \<and>
   truthy (jsprop (example_paypal_body (JStr ''19.99'')) ''payerID'') \<and>
   truthy (jsprop (example_paypal_body (JStr ''19.99'')) ''amount'') \<and>
   status (fst (process_paypal_payment example_runtime example_env example_services
                  (example_paypal_body (JStr ''19.99'')))) = 500"
  by (simp add: example_paypal_body_def process_paypal_payment_def paypal_failed_def json_def)

text \<open>
  Claim C1, amended. When \<^verbatim>\<open>orderID\<close>, \<^verbatim>\<open>payerID\<close> or \<^verbatim>\<open>amount\<close> is missing or otherwise falsy, the
  handler answers 400 with the error \<^verbatim>\<open>Missing required payment information\<close> and does nothing
  else. When all three are truthy and \<^verbatim>\<open>amount\<close> is a number \<open>n\<close>, it answers 200 with
  \<^verbatim>\<open>success: true\<close> and a payment record whose \<^verbatim>\<open>id\<close> is the caller's \<^verbatim>\<open>orderID\<close>, whose \<^verbatim>\<open>status\<close> is
  the literal \<^verbatim>\<open>COMPLETED\<close> and whose \<^verbatim>\<open>amount.value\<close> is \<^verbatim>\<open>n.toFixed(2)\<close>; nothing is verified with
  any provider, the only effects being the mails of the guarded notifier. For a finite \<open>n\<close>
  below \<open>10^21\<close> in magnitude, \<^verbatim>\<open>n.toFixed(2)\<close> is a sign, the digits of the whole part, a point
  and exactly two decimals, those of \<open>n\<close> rounded to the nearest hundredth.
\<close>

theorem process_paypal_payment_result:
  assumes "\<not> nullish body"
  shows "(\<not> truthy (jsprop body ''orderID'') \<or> \<not> truthy (jsprop body ''payerID'') \<or>
          \<not> truthy (jsprop body ''amount'') \<longrightarrow>
            process_paypal_payment rt env svc body =
              (json 400 [(''success'', JBool False),
                         (''error'', JStr ''Missing required payment information'')], []))
       \<and> (truthy (jsprop body ''orderID'') \<and> truthy (jsprop body ''payerID'') \<and>
          truthy (jsprop body ''amount'') \<and> jsprop body ''amount'' = JNum n \<longrightarrow>
            (\<exists>payment.
               process_paypal_payment rt env svc body =
                 (json 200 [(''success'', JBool True), (''payment'', payment)],
                  notify rt env svc payment (jsprop body ''customer'') (jsprop body ''items'') (JNum n))
               \<and> jsprop payment ''id'' = jsprop body ''orderID''
               \<and> jsprop payment ''status'' = JStr ''COMPLETED''
               \<and> jsprop (jsprop payment ''amount'') ''value'' = JStr (toFixed2 rt n))
            \<and> (\<forall>e \<in> set (snd (process_paypal_payment rt env svc body)). \<exists>m. e = SendMail m))
       \<and> (\<forall>r. n = Fin r \<and> \<bar>r\<bar> < 10 ^ 21 \<longrightarrow>
            toFixed2 rt n =
              (if r < 0 then ''-'' else []) @
              dec (nat \<lfloor>\<bar>r\<bar> * 100 + 1 / 2\<rfloor> div 100) @ ''.'' @
              [''0123456789'' ! (nat \<lfloor>\<bar>r\<bar> * 100 + 1 / 2\<rfloor> div 10 mod 10),
               ''0123456789'' ! (nat \<lfloor>\<bar>r\<bar> * 100 + 1 / 2\<rfloor> mod 10)])"
proof (intro conjI impI allI)
  assume "\<not> truthy (jsprop body ''orderID'') \<or> \<not> truthy (jsprop body ''payerID'') \<or>
          \<not> truthy (jsprop body ''amount'')"
  with assms show "process_paypal_payment rt env svc body =
      (json 400 [(''success'', JBool False),
                 (''error'', JStr ''Missing required payment information'')], [])"
    by (auto simp: process_paypal_payment_def missing_payment_information_def Let_def)
next
  assume h: "truthy (jsprop body ''orderID'') \<and> truthy (jsprop body ''payerID'') \<and>
          truthy (jsprop body ''amount'') \<and> jsprop body ''amount'' = JNum n"
  let ?payment = "paypalPayment svc (jsprop body ''orderID'') (jsprop body ''payerID'')
                   (JStr (toFixed2 rt n)) (jsprop body ''customer'')"
  have run: "process_paypal_payment rt env svc body =
      (json 200 [(''success'', JBool True), (''payment'', ?payment)],
       notify rt env svc ?payment (jsprop body ''customer'') (jsprop body ''items'') (JNum n))"
  proof -
    from h have "truthy (JNum n)" by metis
    with assms h show ?thesis
      by (simp add: process_paypal_payment_def Let_def del: truthy.simps toFixed2.simps)
  qed
  have "jsprop ?payment ''id'' = jsprop body ''orderID''"
    "jsprop ?payment ''status'' = JStr ''COMPLETED''"
    "jsprop (jsprop ?payment ''amount'') ''value'' = JStr (toFixed2 rt n)"
    by (simp_all add: paypalPayment_def)
  with run show "\<exists>payment.
      process_paypal_payment rt env svc body =
        (json 200 [(''success'', JBool True), (''payment'', payment)],
         notify rt env svc payment (jsprop body ''customer'') (jsprop body ''items'') (JNum n))
      \<and> jsprop payment ''id'' = jsprop body ''orderID''
      \<and> jsprop payment ''status'' = JStr ''COMPLETED''
      \<and> jsprop (jsprop payment ''amount'') ''value'' = JStr (toFixed2 rt n)"
    by blast
  show "\<forall>e \<in> set (snd (process_paypal_payment rt env svc body)). \<exists>m. e = SendMail m"
    using run by (auto dest: notify_sends_only_mail)
next
  fix r
  assume "n = Fin r \<and> \<bar>r\<bar> < 10 ^ 21"
  then show "toFixed2 rt n =
      (if r < 0 then ''-'' else []) @
      dec (nat \<lfloor>\<bar>r\<bar> * 100 + 1 / 2\<rfloor> div 100) @ ''.'' @
      [''0123456789'' ! (nat \<lfloor>\<bar>r\<bar> * 100 + 1 / 2\<rfloor> div 10 mod 10),
       ''0123456789'' ! (nat \<lfloor>\<bar>r\<bar> * 100 + 1 / 2\<rfloor> mod 10)]"
    by (simp add: fixed2_digits Let_def)
qed

theorem process_paypal_payment_result_witness:
  "\<exists>payment.
     process_paypal_payment example_runtime example_env example_services
       (example_paypal_body (JNum (Fin d19_99))) =
       (json 200 [(''success'', JBool True), (''payment'', payment)],
        notify example_runtime example_env example_services payment
          (JObj [(''email'', JStr ''a@b.com'')]) JUndefined (JNum (Fin d19_99)))
     \<and> jsprop payment ''id'' = JStr ''O1''
     \<and> jsprop payment ''status'' = JStr ''COMPLETED''
     \<and> jsprop (jsprop payment ''amount'') ''value'' = JStr ''19.99''"
proof -
  have pos: "d19_99 \<noteq> 0" by (simp add: d19_99_def)
  have "\<not> nullish (example_paypal_body (JNum (Fin d19_99)))"
    by (simp add: example_paypal_body_def)
  from process_paypal_payment_result [OF this, of example_runtime example_env example_services
      "Fin d19_99"]
  show ?thesis
    using pos by (simp add: example_paypal_body_def toFixed2_d19_99 del: toFixed2.simps)
qed

subsection \<open>Creating a payment intent\<close>

lemma create_failed_shape:
  "\<exists>m c. m \<noteq> [] \<and> c \<noteq> [] \<and>
     create_failed e = json 500 [(''success'', JBool False), (''error'', JStr m), (''code'', JStr c)]"
  by (cases e) (auto simp: create_failed_def js_or_def str_or_undefined_def split: option.splits)

lemma create_payment_intent_cases:
  "fst (create_payment_intent rt svc body) = invalid_amount \<and> snd (create_payment_intent rt svc body) = []
   \<or> (\<exists>e. fst (create_payment_intent rt svc body) = create_failed e)
   \<or> (\<exists>params paymentIntent.
         create_params rt body = Inr params \<and>
         paymentIntents_create svc params = Inr paymentIntent \<and>
         create_payment_intent rt svc body =
           (json 200 [(''success'', JBool True),
                      (''client_secret'', jsprop paymentIntent ''client_secret''),
                      (''payment_intent_id'', jsprop paymentIntent ''id'')],
            [StripeCreate params]))"
  by (auto simp: create_payment_intent_def get_def split: sum.splits)

lemma status_json [simp]: "status (json c kvs) = c"
  by (simp add: json_def)

lemma status_create_failed [simp]: "status (create_failed e) = 500"
  by (simp add: create_failed_def)

lemma status_invalid_amount [simp]: "status invalid_amount = 400"
  by (simp add: invalid_amount_def)

lemma create_params_amount:
  "create_params rt body = Inr params \<Longrightarrow> ToNumber rt (jsprop body ''amount'') = Inr n \<Longrightarrow>
   jsprop params ''amount'' = JNum (Math_round n)"
  by (auto simp: create_params_def Let_def split: sum.splits)

lemma create_payment_intent_effects:
  "snd (create_payment_intent rt svc body) = [] \<or>
   (\<exists>params. create_params rt body = Inr params \<and>
      snd (create_payment_intent rt svc body) = [StripeCreate params])"
  by (auto simp: create_payment_intent_def split: sum.splits)

lemma items_count_array:
  "items = JUndefined \<or> items = JArr xs \<Longrightarrow> \<exists>c. items_count rt items = Inr c"
  by (auto simp: items_count_def)

lemma create_payment_intent_valid:
  assumes "\<not> nullish body" and "truthy (jsprop body ''amount'')"
    and "ToNumber rt (jsprop body ''amount'') = Inr n" and "\<not> num_less n 50"
    and "create_params rt body = Inr params"
  shows "snd (create_payment_intent rt svc body) = [StripeCreate params]"
    and "paymentIntents_create svc params = Inr paymentIntent \<Longrightarrow> \<not> nullish paymentIntent \<Longrightarrow>
         fst (create_payment_intent rt svc body) =
           json 200 [(''success'', JBool True),
                     (''client_secret'', jsprop paymentIntent ''client_secret''),
                     (''payment_intent_id'', jsprop paymentIntent ''id'')]"
  using assms by (auto simp: create_payment_intent_def split: sum.splits)

text \<open>
  Claim C2. A request whose \<^verbatim>\<open>amount\<close> is missing, or is below 50 (a number below 50, or a
  value that \<^verbatim>\<open><\<close> converts to one), is answered 400 with the error \<^verbatim>\<open>Invalid amount\<close> and the
  details \<^verbatim>\<open>Amount must be at least $0.50\<close>, and the payment provider is not called. A
  request whose \<^verbatim>\<open>amount\<close> is at least 50 (truthy and, as a number, not below 50: every number
  from 50 up) passes the validation: when the item count of the metadata can be computed, the
  provider is called exactly once, with the parameters built from the body, and when it
  returns an intent the response is 200 with \<^verbatim>\<open>success: true\<close>, the intent's client secret as
  \<^verbatim>\<open>client_secret\<close> and its id as \<^verbatim>\<open>payment_intent_id\<close> (the server starts only with a provider
  key). Every 200 response of the route has that form, after one call of the provider.
\<close>

theorem create_payment_intent_amount:
  assumes "\<not> nullish body"
  shows "(jsprop body ''amount'' = JUndefined \<or>
          (\<exists>n. ToNumber rt (jsprop body ''amount'') = Inr n \<and> num_less n 50) \<longrightarrow>
            create_payment_intent rt svc body =
              (json 400 [(''error'', JStr ''Invalid amount''),
                         (''details'', JStr ''Amount must be at least $0.50'')], []))
       \<and> (\<forall>n c. truthy (jsprop body ''amount'') \<and>
                 ToNumber rt (jsprop body ''amount'') = Inr n \<and> \<not> num_less n 50 \<and>
                 items_count rt (jsprop body ''items'') = Inr c \<longrightarrow>
            (\<exists>params.
               create_params rt body = Inr params \<and>
               snd (create_payment_intent rt svc body) = [StripeCreate params] \<and>
               (\<forall>paymentIntent.
                  paymentIntents_create svc params = Inr paymentIntent \<and> \<not> nullish paymentIntent \<longrightarrow>
                    fst (create_payment_intent rt svc body) =
                      json 200 [(''success'', JBool True),
                                (''client_secret'', jsprop paymentIntent ''client_secret''),
                                (''payment_intent_id'', jsprop paymentIntent ''id'')])))
       \<and> (status (fst (create_payment_intent rt svc body)) = 200 \<longrightarrow>
            (\<exists>params paymentIntent.
               paymentIntents_create svc params = Inr paymentIntent \<and>
               create_payment_intent rt svc body =
                 (json 200 [(''success'', JBool True),
                            (''client_secret'', jsprop paymentIntent ''client_secret''),
                            (''payment_intent_id'', jsprop paymentIntent ''id'')],
                  [StripeCreate params])))"
proof (intro conjI impI allI)
  assume "jsprop body ''amount'' = JUndefined \<or>
          (\<exists>n. ToNumber rt (jsprop body ''amount'') = Inr n \<and> num_less n 50)"
  with assms show "create_payment_intent rt svc body =
      (json 400 [(''error'', JStr ''Invalid amount''),
                 (''details'', JStr ''Amount must be at least $0.50'')], [])"
    by (auto simp: create_payment_intent_def invalid_amount_def)
next
  fix n c
  assume h: "truthy (jsprop body ''amount'') \<and>
             ToNumber rt (jsprop body ''amount'') = Inr n \<and> \<not> num_less n 50 \<and>
             items_count rt (jsprop body ''items'') = Inr c"
  then obtain params where p: "create_params rt body = Inr params"
    by (simp add: create_params_def Let_def)
  from h p assms have "snd (create_payment_intent rt svc body) = [StripeCreate params]"
    by (simp add: create_payment_intent_valid(1))
  moreover from h p assms have "\<forall>paymentIntent.
      paymentIntents_create svc params = Inr paymentIntent \<and> \<not> nullish paymentIntent \<longrightarrow>
        fst (create_payment_intent rt svc body) =
          json 200 [(''success'', JBool True),
                    (''client_secret'', jsprop paymentIntent ''client_secret''),
                    (''payment_intent_id'', jsprop paymentIntent ''id'')]"
    by (blast intro: create_payment_intent_valid(2))
  ultimately show "\<exists>params.
      create_params rt body = Inr params \<and>
      snd (create_payment_intent rt svc body) = [StripeCreate params] \<and>
      (\<forall>paymentIntent.
         paymentIntents_create svc params = Inr paymentIntent \<and> \<not> nullish paymentIntent \<longrightarrow>
           fst (create_payment_intent rt svc body) =
             json 200 [(''success'', JBool True),
                       (''client_secret'', jsprop paymentIntent ''client_secret''),
                       (''payment_intent_id'', jsprop paymentIntent ''id'')])"
    using p by blast
next
  assume ok: "status (fst (create_payment_intent rt svc body)) = 200"
  from create_payment_intent_cases [of rt svc body] ok
  show "\<exists>params paymentIntent.
      paymentIntents_create svc params = Inr paymentIntent \<and>
      create_payment_intent rt svc body =
        (json 200 [(''success'', JBool True),
                   (''client_secret'', jsprop paymentIntent ''client_secret''),
                   (''payment_intent_id'', jsprop paymentIntent ''id'')],
         [StripeCreate params])"
    by (elim disjE exE conjE) (simp, simp, blast)
qed

theorem create_payment_intent_amount_witness:
  "create_payment_intent example_runtime example_services
     (JObj [(''amount'', JNum (Fin 25)), (''currency'', JStr ''usd'')]) =
     (json 400 [(''error'', JStr ''Invalid amount''),
                (''details'', JStr ''Amount must be at least $0.50'')], [])
   \<and> fst (create_payment_intent example_runtime example_services
            (JObj [(''amount'', JNum (Fin 50)), (''currency'', JStr ''usd'')])) =
       json 200 [(''success'', JBool True),
                 (''client_secret'', JStr ''pi_1_secret''),
                 (''payment_intent_id'', JStr ''pi_1'')]
   \<and> (\<exists>params. snd (create_payment_intent example_runtime example_services
                       (JObj [(''amount'', JNum (Fin 50)), (''currency'', JStr ''usd'')])) =
                 [StripeCreate params])"
proof -
  let ?low = "JObj [(''amount'', JNum (Fin 25)), (''currency'', JStr ''usd'')]"
  let ?ok = "JObj [(''amount'', JNum (Fin 50)), (''currency'', JStr ''usd'')]"
  let ?pi = "example_intent ''requires_payment_method''"
  have l: "jsprop ?low ''amount'' = JUndefined \<or>
        (\<exists>n. ToNumber example_runtime (jsprop ?low ''amount'') = Inr n \<and> num_less n 50)"
    by simp
  have first: "create_payment_intent example_runtime example_services ?low =
     (json 400 [(''error'', JStr ''Invalid amount''),
                (''details'', JStr ''Amount must be at least $0.50'')], [])"
    using create_payment_intent_amount [of ?low example_runtime example_services] l by simp
  have h: "truthy (jsprop ?ok ''amount'') \<and>
           ToNumber example_runtime (jsprop ?ok ''amount'') = Inr (Fin 50) \<and>
           \<not> num_less (Fin 50) 50 \<and>
           items_count example_runtime (jsprop ?ok ''items'') = Inr (JStr ''0'')"
    by (simp add: items_count_def)
  have prov: "\<And>params. paymentIntents_create example_services params = Inr ?pi \<and> \<not> nullish ?pi"
    by (simp add: example_services_def example_intent_def)
  have nn: "\<not> nullish ?ok" by simp
  from create_payment_intent_amount [OF nn, THEN conjunct2, THEN conjunct1, rule_format, OF h,
      where svc = example_services]
  obtain params where
    e: "snd (create_payment_intent example_runtime example_services ?ok) = [StripeCreate params]"
    and r: "\<forall>paymentIntent.
         paymentIntents_create example_services params = Inr paymentIntent \<and>
         \<not> nullish paymentIntent \<longrightarrow>
           fst (create_payment_intent example_runtime example_services ?ok) =
             json 200 [(''success'', JBool True),
                       (''client_secret'', jsprop paymentIntent ''client_secret''),
                       (''payment_intent_id'', jsprop paymentIntent ''id'')]"
    by blast
  from r prov have "fst (create_payment_intent example_runtime example_services ?ok) =
      json 200 [(''success'', JBool True),
                (''client_secret'', jsprop ?pi ''client_secret''),
                (''payment_intent_id'', jsprop ?pi ''id'')]"
    by blast
  then have second: "fst (create_payment_intent example_runtime example_services ?ok) =
      json 200 [(''success'', JBool True),
                (''client_secret'', JStr ''pi_1_secret''),
                (''payment_intent_id'', JStr ''pi_1'')]"
    by (simp add: example_intent_def)
  from first second e show ?thesis by blast
qed

text \<open>
  Claim C6, as stated, gives every response other than 200 the shape
  \<^verbatim>\<open>{success: false, error, code?}\<close>. The 400 of the validation is \<^verbatim>\<open>{error, details}\<close>: it has no
  \<^verbatim>\<open>success\<close> field.
\<close>

theorem create_payment_intent_400_counterexample:
  "fst (create_payment_intent example_runtime example_services
          (JObj [(''amount'', JNum (Fin 25)), (''currency'', JStr ''usd'')])) =
     json 400 [(''error'', JStr ''Invalid amount''),
               (''details'', JStr ''Amount must be at least $0.50'')]
   \<and> map_of [(''error'', JStr ''Invalid amount''),
             (''details'', JStr ''Amount must be at least $0.50'')] ''success'' = None"
  by (simp add: create_payment_intent_def invalid_amount_def)

text \<open>
  Claim C6, amended. A response of this route other than 200 is either the 400 of the
  validation, whose body is \<^verbatim>\<open>{error: "Invalid amount", details: "Amount must be at least $0.50"}\<close>,
  or a 500 whose body is \<^verbatim>\<open>{success: false, error, code}\<close> with non-empty strings for \<^verbatim>\<open>error\<close>
  and \<^verbatim>\<open>code\<close>.
\<close>

theorem create_payment_intent_error_bodies:
  "status (fst (create_payment_intent rt svc body)) \<noteq> 200 \<longrightarrow>
     fst (create_payment_intent rt svc body) =
       json 400 [(''error'', JStr ''Invalid amount''),
                 (''details'', JStr ''Amount must be at least $0.50'')]
     \<or> (\<exists>m c. m \<noteq> [] \<and> c \<noteq> [] \<and>
          fst (create_payment_intent rt svc body) =
            json 500 [(''success'', JBool False), (''error'', JStr m), (''code'', JStr c)])"
proof
  assume ne: "status (fst (create_payment_intent rt svc body)) \<noteq> 200"
  from create_payment_intent_cases [of rt svc body]
  show "fst (create_payment_intent rt svc body) =
       json 400 [(''error'', JStr ''Invalid amount''),
                 (''details'', JStr ''Amount must be at least $0.50'')]
     \<or> (\<exists>m c. m \<noteq> [] \<and> c \<noteq> [] \<and>
          fst (create_payment_intent rt svc body) =
            json 500 [(''success'', JBool False), (''error'', JStr m), (''code'', JStr c)])"
  proof (elim disjE exE conjE)
    assume "fst (create_payment_intent rt svc body) = invalid_amount"
    then show ?thesis by (simp add: invalid_amount_def)
  next
    fix e assume "fst (create_payment_intent rt svc body) = create_failed e"
    with create_failed_shape [of e] show ?thesis by auto
  next
    fix params paymentIntent
    assume "create_payment_intent rt svc body =
           (json 200 [(''success'', JBool True),
                      (''client_secret'', jsprop paymentIntent ''client_secret''),
                      (''payment_intent_id'', jsprop paymentIntent ''id'')],
            [StripeCreate params])"
    with ne show ?thesis by simp
  qed
qed

theorem create_payment_intent_error_bodies_witness:
  "status (fst (create_payment_intent example_runtime
      (example_services\<lparr>paymentIntents_create :=
          (\<lambda>p. Inl (JsError ''Your card was declined.'' (Some ''StripeCardError'')))\<rparr>)
      (JObj [(''amount'', JNum (Fin 2000))]))) = 500
   \<and> (\<exists>m c. m \<noteq> [] \<and> c \<noteq> [] \<and>
        fst (create_payment_intent example_runtime
          (example_services\<lparr>paymentIntents_create :=
              (\<lambda>p. Inl (JsError ''Your card was declined.'' (Some ''StripeCardError'')))\<rparr>)
          (JObj [(''amount'', JNum (Fin 2000))])) =
        json 500 [(''success'', JBool False), (''error'', JStr m), (''code'', JStr c)])"
proof -
  let ?r = "fst (create_payment_intent example_runtime
      (example_services\<lparr>paymentIntents_create :=
          (\<lambda>p. Inl (JsError ''Your card was declined.'' (Some ''StripeCardError'')))\<rparr>)
      (JObj [(''amount'', JNum (Fin 2000))]))"
  have st: "status ?r = 500"
    by (simp add: create_payment_intent_def create_params_def items_count_def Let_def)
  then have "status ?r \<noteq> 200" "?r \<noteq> json 400 [(''error'', JStr ''Invalid amount''),
                 (''details'', JStr ''Amount must be at least $0.50'')]"
    by (auto simp: json_def)
  with create_payment_intent_error_bodies [of example_runtime
      "example_services\<lparr>paymentIntents_create :=
          (\<lambda>p. Inl (JsError ''Your card was declined.'' (Some ''StripeCardError'')))\<rparr>"
      "JObj [(''amount'', JNum (Fin 2000))]"] st
  show ?thesis by blast
qed

lemma Math_round_nearest:
  assumes "0 \<le> r"
  shows "\<exists>k::int. Math_round (Fin r) = Fin (of_int k) \<and> of_int k - 1 / 2 \<le> r \<and> r < of_int k + 1 / 2"
proof -
  have a: "of_int \<lfloor>r + 1 / 2\<rfloor> \<le> r + 1 / 2" by (rule of_int_floor_le)
  have b: "r + 1 / 2 < of_int \<lfloor>r + 1 / 2\<rfloor> + 1" by (rule floor_correct [THEN conjunct2, simplified])
  have "Math_round (Fin r) = Fin (of_int \<lfloor>r + 1 / 2\<rfloor>)"
    using assms by simp
  moreover have "of_int \<lfloor>r + 1 / 2\<rfloor> - 1 / 2 \<le> r" using a by linarith
  moreover have "r < of_int \<lfloor>r + 1 / 2\<rfloor> + 1 / 2" using b by linarith
  ultimately show ?thesis by blast
qed

text \<open>
  Claim C9. For a request whose \<^verbatim>\<open>amount\<close> passes the validation, being truthy and, as the
  number \<open>n\<close>, not below 50, every call of the payment provider carries \<^verbatim>\<open>Math.round(n)\<close> as
  its amount, whether \<open>n\<close> is an integer or not; and the call is made, once, whenever the item
  count of the metadata can be computed, as it can when \<^verbatim>\<open>items\<close> is absent or an array. The
  amount is not rejected for not being an integer. For a finite \<open>n\<close> the value forwarded is an
  integer \<open>k\<close> with \<open>k - 1/2 \<le> n < k + 1/2\<close>: the integer nearest to \<open>n\<close>, the upper one at a
  tie.
\<close>

theorem create_payment_intent_rounds_amount:
  assumes "\<not> nullish body"
    and "truthy (jsprop body ''amount'')"
    and "ToNumber rt (jsprop body ''amount'') = Inr n" and "\<not> num_less n 50"
  shows "(\<forall>p. StripeCreate p \<in> set (snd (create_payment_intent rt svc body)) \<longrightarrow>
              jsprop p ''amount'' = JNum (Math_round n))
       \<and> ((\<exists>c. items_count rt (jsprop body ''items'') = Inr c) \<longrightarrow>
            (\<exists>p. snd (create_payment_intent rt svc body) = [StripeCreate p] \<and>
                 jsprop p ''amount'' = JNum (Math_round n)))
       \<and> (\<forall>r. n = Fin r \<longrightarrow>
            (\<exists>k::int. Math_round n = Fin (of_int k) \<and>
                       of_int k - 1 / 2 \<le> r \<and> r < of_int k + 1 / 2))"
proof (intro conjI allI impI)
  fix p
  assume "StripeCreate p \<in> set (snd (create_payment_intent rt svc body))"
  with create_payment_intent_effects [of rt svc body]
  have "create_params rt body = Inr p" by auto
  then show "jsprop p ''amount'' = JNum (Math_round n)"
    using assms(3) by (simp add: create_params_amount)
next
  assume "\<exists>c. items_count rt (jsprop body ''items'') = Inr c"
  then obtain c where c: "items_count rt (jsprop body ''items'') = Inr c" ..
  from c assms(3) obtain p where p: "create_params rt body = Inr p"
    by (simp add: create_params_def Let_def)
  then have "snd (create_payment_intent rt svc body) = [StripeCreate p]"
    using assms
    by (simp add: create_payment_intent_def get_def split: sum.splits)
  moreover have "jsprop p ''amount'' = JNum (Math_round n)"
    using p assms(3) by (simp add: create_params_amount)
  ultimately show "\<exists>p. snd (create_payment_intent rt svc body) = [StripeCreate p] \<and>
      jsprop p ''amount'' = JNum (Math_round n)"
    by blast
next
  fix r
  assume n: "n = Fin r"
  with assms(4) have "0 \<le> r" by simp
  from Math_round_nearest [OF this] n
  show "\<exists>k::int. Math_round n = Fin (of_int k) \<and> of_int k - 1 / 2 \<le> r \<and> r < of_int k + 1 / 2"
    by simp
qed

theorem create_payment_intent_rounds_amount_witness:
  "(\<exists>p. snd (create_payment_intent example_runtime example_services
            (JObj [(''amount'', JNum (Fin (201 / 2))), (''items'', JArr [JNull, JNull])])) =
          [StripeCreate p]
       \<and> jsprop p ''amount'' = JNum (Fin 101))
   \<and> (\<exists>k::int. Math_round (Fin (201 / 2)) = Fin (of_int k) \<and>
                of_int k - 1 / 2 \<le> (201 / 2 :: rat) \<and> (201 / 2 :: rat) < of_int k + 1 / 2)"
proof -
  let ?body = "JObj [(''amount'', JNum (Fin (201 / 2))), (''items'', JArr [JNull, JNull])]"
  have r: "Math_round (Fin (201 / 2)) = Fin 101"
    by simp
  have c: "\<exists>c. items_count example_runtime (jsprop ?body ''items'') = Inr c"
    by (simp add: items_count_def)
  have h: "\<not> nullish ?body" "truthy (jsprop ?body ''amount'')"
    "ToNumber example_runtime (jsprop ?body ''amount'') = Inr (Fin (201 / 2))"
    "\<not> num_less (Fin (201 / 2)) 50"
    by simp_all
  note t = create_payment_intent_rounds_amount [OF h, where svc = example_services]
  from t [THEN conjunct2, THEN conjunct1, rule_format, OF c]
  have first: "\<exists>p. snd (create_payment_intent example_runtime example_services ?body) =
                  [StripeCreate p] \<and> jsprop p ''amount'' = JNum (Fin 101)"
    unfolding r .
  from t [THEN conjunct2, THEN conjunct2, rule_format, OF refl]
  have second: "\<exists>k::int. Math_round (Fin (201 / 2)) = Fin (of_int k) \<and>
                  of_int k - 1 / 2 \<le> (201 / 2 :: rat) \<and> (201 / 2 :: rat) < of_int k + 1 / 2" .
  from first second show ?thesis by (rule conjI)
qed

subsection \<open>The webhook's dispatch\<close>

lemma dispatch_payment_failed:
  "jsprop event ''type'' = JStr ''payment_intent.payment_failed'' \<Longrightarrow>
   dispatch_event rt env svc event = Inr [] \<or> (\<exists>e. dispatch_event rt env svc event = Inl e)"
  by (auto simp: dispatch_event_def get_def split: sum.splits)

lemma sendOrderEmails_card:
  assumes "jsprop paymentIntent ''object'' = JStr ''payment_intent''"
    and "jsprop paymentIntent ''id'' = JStr pid"
    and "jsprop paymentIntent ''amount'' = JNum n"
    and "js_or (jsprop paymentIntent ''receipt_email'')
           (opt (jsprop paymentIntent ''metadata'') ''customer_email'') = JStr email"
    and "email \<noteq> []"
    and "js_or (opt (jsprop paymentIntent ''metadata'') ''customer_name'') (JStr ''Customer'') = JStr name"
  shows "sendOrderEmails rt env svc paymentIntent JUndefined JUndefined JUndefined =
           [\<lparr>mail_from = str_or_undefined (EMAIL_USER env),
             mail_to = js_or (str_or_undefined (BUSINESS_EMAIL env)) (JStr ''anaroyes7@gmail.com''),
             subject = ''New Order - Payment '' @ pid,
             html = BusinessHtml pid (toFixed2 rt (num_div rt n (Fin 100))) ''Credit Card (Stripe)''
                      name email (toLocaleDateString svc)\<rparr>,
            \<lparr>mail_from = str_or_undefined (EMAIL_USER env),
             mail_to = JStr email,
             subject = ''Order Confirmation - Payment '' @ pid,
             html = CustomerHtml pid name (toFixed2 rt (num_div rt n (Fin 100)))
                      ''Credit Card (Stripe)''\<rparr>]"
proof -
  have nn: "\<not> nullish paymentIntent"
    using assms(1) by (auto simp: nullish_def)
  have "order_summary rt paymentIntent JNull JNull =
          Inr (JStr email, JStr name, JStr (toFixed2 rt (num_div rt n (Fin 100))), JStr pid,
               ''Credit Card (Stripe)'')"
    using nn assms by (simp add: order_summary_def)
  then show ?thesis
    using assms(5) by (simp add: sendOrderEmails_def email_options_def)
qed

text \<open>
  Claim C4, as stated, has two sends attempted for every validly signed
  \<^verbatim>\<open>payment_intent.succeeded\<close> event whose intent has a customer email. The handler calls the
  notifier only when the email transporter exists: with no email credentials configured, such
  an event is acknowledged and no send is attempted.
\<close>

theorem webhook_no_transporter_counterexample:
  "constructEvent example_services (Buffer ''payment_intent.succeeded'') (Some ''good'') ''whsec_1'' =
     Inr (JObj [(''type'', JStr ''payment_intent.succeeded''),
                (''data'', JObj [(''object'', example_intent ''succeeded'')])])
   \<and> jsprop (example_intent ''succeeded'') ''receipt_email'' = JStr ''a@b.com''
   \<and> webhook example_runtime (example_env\<lparr>EMAIL_USER := None, EMAIL_PASS := None\<rparr>) example_services
       (Some ''good'') (Buffer ''payment_intent.succeeded'') =
     (json 200 [(''received'', JBool True)], [])"
  by (simp add: webhook_def dispatch_event_def notify_def emailTransporter_def js_and_def
        example_services_def example_env_def example_intent_def str_or_undefined_def)

text \<open>
  Claim C4, amended. With the email transporter configured, a validly signed event of type
  \<^verbatim>\<open>payment_intent.succeeded\<close> whose object is a card intent (\<^verbatim>\<open>object: "payment_intent"\<close>, a
  string id, a numeric amount, a string customer name or none) with a non-empty customer
  email, taken from \<^verbatim>\<open>receipt_email\<close> or else from \<^verbatim>\<open>metadata.customer_email\<close>, has exactly two
  sends attempted, one to the business address and one to the customer, and is acknowledged.
  A validly signed event of type \<^verbatim>\<open>payment_intent.payment_failed\<close> has no send attempted.
\<close>

theorem webhook_payment_events:
  assumes "STRIPE_WEBHOOK_SECRET env = Some secret" and "secret \<noteq> []"
    and "constructEvent svc body sig secret = Inr event"
  shows "(jsprop event ''type'' = JStr ''payment_intent.succeeded'' \<and>
          jsprop (jsprop event ''data'') ''object'' = paymentIntent \<and>
          emailTransporter env \<and>
          jsprop paymentIntent ''object'' = JStr ''payment_intent'' \<and>
          jsprop paymentIntent ''id'' = JStr pid \<and>
          jsprop paymentIntent ''amount'' = JNum n \<and>
          js_or (jsprop paymentIntent ''receipt_email'')
            (opt (jsprop paymentIntent ''metadata'') ''customer_email'') = JStr email \<and>
          email \<noteq> [] \<and>
          js_or (opt (jsprop paymentIntent ''metadata'') ''customer_name'') (JStr ''Customer'') =
            JStr name \<longrightarrow>
            webhook rt env svc sig body =
              (json 200 [(''received'', JBool True)],
               [SendMail
                  \<lparr>mail_from = str_or_undefined (EMAIL_USER env),
                   mail_to = js_or (str_or_undefined (BUSINESS_EMAIL env)) (JStr ''anaroyes7@gmail.com''),
                   subject = ''New Order - Payment '' @ pid,
                   html = BusinessHtml pid (toFixed2 rt (num_div rt n (Fin 100)))
                            ''Credit Card (Stripe)'' name email (toLocaleDateString svc)\<rparr>,
                SendMail
                  \<lparr>mail_from = str_or_undefined (EMAIL_USER env),
                   mail_to = JStr email,
                   subject = ''Order Confirmation - Payment '' @ pid,
                   html = CustomerHtml pid name (toFixed2 rt (num_div rt n (Fin 100)))
                            ''Credit Card (Stripe)''\<rparr>]))
       \<and> (jsprop event ''type'' = JStr ''payment_intent.payment_failed'' \<longrightarrow>
            snd (webhook rt env svc sig body) = [])"
proof (intro conjI impI)
  assume h: "jsprop event ''type'' = JStr ''payment_intent.succeeded'' \<and>
          jsprop (jsprop event ''data'') ''object'' = paymentIntent \<and>
          emailTransporter env \<and>
          jsprop paymentIntent ''object'' = JStr ''payment_intent'' \<and>
          jsprop paymentIntent ''id'' = JStr pid \<and>
          jsprop paymentIntent ''amount'' = JNum n \<and>
          js_or (jsprop paymentIntent ''receipt_email'')
            (opt (jsprop paymentIntent ''metadata'') ''customer_email'') = JStr email \<and>
          email \<noteq> [] \<and>
          js_or (opt (jsprop paymentIntent ''metadata'') ''customer_name'') (JStr ''Customer'') =
            JStr name"
  then have pi: "\<not> nullish paymentIntent"
    by (auto simp: nullish_def)
  with h have "\<not> nullish (jsprop event ''data'')" "\<not> nullish event"
    by (auto simp: nullish_def)
  with pi h have "dispatch_event rt env svc event =
      Inr (notify rt env svc paymentIntent JUndefined JUndefined JUndefined)"
    by (simp add: dispatch_event_def)
  moreover have "notify rt env svc paymentIntent JUndefined JUndefined JUndefined =
      map SendMail (sendOrderEmails rt env svc paymentIntent JUndefined JUndefined JUndefined)"
    using h by (simp add: notify_def)
  ultimately show "webhook rt env svc sig body =
              (json 200 [(''received'', JBool True)],
               [SendMail
                  \<lparr>mail_from = str_or_undefined (EMAIL_USER env),
                   mail_to = js_or (str_or_undefined (BUSINESS_EMAIL env)) (JStr ''anaroyes7@gmail.com''),
                   subject = ''New Order - Payment '' @ pid,
                   html = BusinessHtml pid (toFixed2 rt (num_div rt n (Fin 100)))
                            ''Credit Card (Stripe)'' name email (toLocaleDateString svc)\<rparr>,
                SendMail
                  \<lparr>mail_from = str_or_undefined (EMAIL_USER env),
                   mail_to = JStr email,
                   subject = ''Order Confirmation - Payment '' @ pid,
                   html = CustomerHtml pid name (toFixed2 rt (num_div rt n (Fin 100)))
                            ''Credit Card (Stripe)''\<rparr>])"
    using assms h sendOrderEmails_card [of paymentIntent pid n email name rt env svc]
    by (simp add: webhook_def str_or_undefined_def)
next
  assume "jsprop event ''type'' = JStr ''payment_intent.payment_failed''"
  from dispatch_payment_failed [OF this, of rt env svc]
  show "snd (webhook rt env svc sig body) = []"
    using assms by (auto simp: webhook_def str_or_undefined_def)
qed

theorem webhook_payment_events_witness:
  "webhook example_runtime example_env example_services (Some ''good'')
     (Buffer ''payment_intent.succeeded'') =
     (json 200 [(''received'', JBool True)],
      [SendMail
         \<lparr>mail_from = JStr ''shop@example.com'',
          mail_to = JStr ''anaroyes7@gmail.com'',
          subject = ''New Order - Payment pi_1'',
          html = BusinessHtml ''pi_1'' ''20.00'' ''Credit Card (Stripe)'' ''Ada'' ''a@b.com''
                   ''5/1/2024''\<rparr>,
       SendMail
         \<lparr>mail_from = JStr ''shop@example.com'',
          mail_to = JStr ''a@b.com'',
          subject = ''Order Confirmation - Payment pi_1'',
          html = CustomerHtml ''pi_1'' ''Ada'' ''20.00'' ''Credit Card (Stripe)''\<rparr>])
   \<and> snd (webhook example_runtime example_env example_services (Some ''good'')
            (Buffer ''payment_intent.payment_failed'')) = []"
proof -
  have fx: "toFixed2 example_runtime (Fin 20) = ''20.00''"
    by code_simp
  have dv: "num_div example_runtime (Fin 2000) (Fin 100) = Fin 20"
    by (simp add: example_runtime_def)
  have ev: "\<And>t. constructEvent example_services (Buffer t) (Some ''good'') ''whsec_1'' =
      Inr (JObj [(''type'', JStr t), (''data'', JObj [(''object'', example_intent ''succeeded'')])])"
    by (simp add: example_services_def)
  have se: "STRIPE_WEBHOOK_SECRET example_env = Some ''whsec_1''" "''whsec_1'' \<noteq> []"
    by (simp_all add: example_env_def)
  have tr: "emailTransporter example_env"
    by (simp add: emailTransporter_def example_env_def js_and_def str_or_undefined_def)
  show ?thesis
    using
      webhook_payment_events [OF se ev, of "''payment_intent.succeeded''"
        "example_intent ''succeeded''" "''pi_1''" "Fin 2000" "''a@b.com''" "''Ada''" example_runtime]
      webhook_payment_events [OF se ev, of "''payment_intent.payment_failed''"
        "example_intent ''succeeded''" "''pi_1''" "Fin 2000" "''a@b.com''" "''Ada''" example_runtime]
      tr
    by (simp add: fx dv example_intent_def js_or_def opt_def str_or_undefined_def example_env_def
          example_services_def del: toFixed2.simps)
qed

subsection \<open>Confirming a payment\<close>

text \<open>
  Claim C5, as stated, has the notifier triggered whenever the retrieved intent's status is
  \<^verbatim>\<open>succeeded\<close>. The handler calls the notifier only when the email transporter exists: with
  no email credentials configured, a succeeded intent with a customer email is reported as a
  success and the retrieval is the handler's only effect.
\<close>

theorem confirm_payment_no_transporter_counterexample:
  "jsprop (example_intent ''succeeded'') ''status'' = JStr ''succeeded''
   \<and> jsprop (example_intent ''succeeded'') ''receipt_email'' = JStr ''a@b.com''
   \<and> confirm_payment example_runtime (example_env\<lparr>EMAIL_USER := None, EMAIL_PASS := None\<rparr>)
       example_services (JObj [(''payment_intent_id'', JStr ''pi_1'')]) =
     (json 200 [(''success'', JBool True), (''payment_intent'', example_intent ''succeeded'')],
      [StripeRetrieve (JStr ''pi_1'')])"
  by (simp add: confirm_payment_def notify_def emailTransporter_def js_and_def Let_def
        example_services_def example_env_def example_intent_def str_or_undefined_def)

text \<open>
  Claim C5, amended. For a request with a payment intent id whose retrieved intent has the
  status string \<open>st\<close>: when \<open>st\<close> is not \<^verbatim>\<open>succeeded\<close>, the handler answers 200, not an error,
  with \<^verbatim>\<open>success: false\<close>, the field \<^verbatim>\<open>status\<close> equal to that very string and a message that
  quotes it, and its only effect is the retrieval, so no mail is sent. When \<open>st\<close> is
  \<^verbatim>\<open>succeeded\<close>, it answers \<^verbatim>\<open>success: true\<close> with the intent, and the notifier is run on the
  intent if the email transporter is configured, and not otherwise; run on a card intent with
  a string id, a numeric amount and a non-empty customer email, the notifier attempts the
  business mail and the customer mail.
\<close>

theorem confirm_payment_by_status:
  assumes "\<not> nullish body"
    and "truthy (jsprop body ''payment_intent_id'')"
    and "paymentIntents_retrieve svc (jsprop body ''payment_intent_id'') = Inr paymentIntent"
    and "jsprop paymentIntent ''status'' = JStr st"
  shows "(st \<noteq> ''succeeded'' \<longrightarrow>
            confirm_payment rt env svc body =
              (json 200 [(''success'', JBool False),
                         (''status'', JStr st),
                         (''message'', JStr (''Payment status is '' @ st))],
               [StripeRetrieve (jsprop body ''payment_intent_id'')]))
       \<and> (st = ''succeeded'' \<longrightarrow>
            confirm_payment rt env svc body =
              (json 200 [(''success'', JBool True), (''payment_intent'', paymentIntent)],
               StripeRetrieve (jsprop body ''payment_intent_id'') #
               (if emailTransporter env
                then map SendMail
                       (sendOrderEmails rt env svc paymentIntent JUndefined JUndefined JUndefined)
                else [])))
       \<and> (st = ''succeeded'' \<and> emailTransporter env \<and>
          jsprop paymentIntent ''object'' = JStr ''payment_intent'' \<and>
          jsprop paymentIntent ''id'' = JStr pid \<and>
          jsprop paymentIntent ''amount'' = JNum n \<and>
          js_or (jsprop paymentIntent ''receipt_email'')
            (opt (jsprop paymentIntent ''metadata'') ''customer_email'') = JStr email \<and>
          email \<noteq> [] \<and>
          js_or (opt (jsprop paymentIntent ''metadata'') ''customer_name'') (JStr ''Customer'') =
            JStr name \<longrightarrow>
            snd (confirm_payment rt env svc body) =
              [StripeRetrieve (jsprop body ''payment_intent_id''),
               SendMail
                 \<lparr>mail_from = str_or_undefined (EMAIL_USER env),
                  mail_to = js_or (str_or_undefined (BUSINESS_EMAIL env)) (JStr ''anaroyes7@gmail.com''),
                  subject = ''New Order - Payment '' @ pid,
                  html = BusinessHtml pid (toFixed2 rt (num_div rt n (Fin 100)))
                           ''Credit Card (Stripe)'' name email (toLocaleDateString svc)\<rparr>,
               SendMail
                 \<lparr>mail_from = str_or_undefined (EMAIL_USER env),
                  mail_to = JStr email,
                  subject = ''Order Confirmation - Payment '' @ pid,
                  html = CustomerHtml pid name (toFixed2 rt (num_div rt n (Fin 100)))
                           ''Credit Card (Stripe)''\<rparr>])"
proof -
  have nn: "\<not> nullish paymentIntent"
    using assms(4) by (auto simp: nullish_def)
  have run: "confirm_payment rt env svc body =
           (if st = ''succeeded''
            then (json 200 [(''success'', JBool True), (''payment_intent'', paymentIntent)],
                  StripeRetrieve (jsprop body ''payment_intent_id'') #
                  (if emailTransporter env
                   then map SendMail
                          (sendOrderEmails rt env svc paymentIntent JUndefined JUndefined JUndefined)
                   else []))
            else (json 200 [(''success'', JBool False),
                            (''status'', JStr st),
                            (''message'', JStr (''Payment status is '' @ st))],
                  [StripeRetrieve (jsprop body ''payment_intent_id'')]))"
    using nn assms by (simp add: confirm_payment_def notify_def)
  show ?thesis
  proof (intro conjI impI)
    assume "st \<noteq> ''succeeded''"
    with run show "confirm_payment rt env svc body =
              (json 200 [(''success'', JBool False),
                         (''status'', JStr st),
                         (''message'', JStr (''Payment status is '' @ st))],
               [StripeRetrieve (jsprop body ''payment_intent_id'')])"
      by simp
  next
    assume "st = ''succeeded''"
    with run show "confirm_payment rt env svc body =
              (json 200 [(''success'', JBool True), (''payment_intent'', paymentIntent)],
               StripeRetrieve (jsprop body ''payment_intent_id'') #
               (if emailTransporter env
                then map SendMail
                       (sendOrderEmails rt env svc paymentIntent JUndefined JUndefined JUndefined)
                else []))"
      by simp
  next
    assume h: "st = ''succeeded'' \<and> emailTransporter env \<and>
          jsprop paymentIntent ''object'' = JStr ''payment_intent'' \<and>
          jsprop paymentIntent ''id'' = JStr pid \<and>
          jsprop paymentIntent ''amount'' = JNum n \<and>
          js_or (jsprop paymentIntent ''receipt_email'')
            (opt (jsprop paymentIntent ''metadata'') ''customer_email'') = JStr email \<and>
          email \<noteq> [] \<and>
          js_or (opt (jsprop paymentIntent ''metadata'') ''customer_name'') (JStr ''Customer'') =
            JStr name"
    with run sendOrderEmails_card [of paymentIntent pid n email name rt env svc]
    show "snd (confirm_payment rt env svc body) =
              [StripeRetrieve (jsprop body ''payment_intent_id''),
               SendMail
                 \<lparr>mail_from = str_or_undefined (EMAIL_USER env),
                  mail_to = js_or (str_or_undefined (BUSINESS_EMAIL env)) (JStr ''anaroyes7@gmail.com''),
                  subject = ''New Order - Payment '' @ pid,
                  html = BusinessHtml pid (toFixed2 rt (num_div rt n (Fin 100)))
                           ''Credit Card (Stripe)'' name email (toLocaleDateString svc)\<rparr>,
               SendMail
                 \<lparr>mail_from = str_or_undefined (EMAIL_USER env),
                  mail_to = JStr email,
                  subject = ''Order Confirmation - Payment '' @ pid,
                  html = CustomerHtml pid name (toFixed2 rt (num_div rt n (Fin 100)))
                           ''Credit Card (Stripe)''\<rparr>]"
      by simp
  qed
qed

theorem confirm_payment_by_status_witness:
  "confirm_payment example_runtime example_env example_services
      (JObj [(''payment_intent_id'', JStr ''pi_2'')]) =
   (json 200 [(''success'', JBool False),
              (''status'', JStr ''processing''),
              (''message'', JStr ''Payment status is processing'')],
    [StripeRetrieve (JStr ''pi_2'')])
   \<and> fst (confirm_payment example_runtime example_env example_services
        (JObj [(''payment_intent_id'', JStr ''pi_1'')])) =
     json 200 [(''success'', JBool True), (''payment_intent'', example_intent ''succeeded'')]
   \<and> snd (confirm_payment example_runtime example_env example_services
        (JObj [(''payment_intent_id'', JStr ''pi_1'')])) =
     [StripeRetrieve (JStr ''pi_1''),
      SendMail
        \<lparr>mail_from = JStr ''shop@example.com'',
         mail_to = JStr ''anaroyes7@gmail.com'',
         subject = ''New Order - Payment pi_1'',
         html = BusinessHtml ''pi_1'' ''20.00'' ''Credit Card (Stripe)'' ''Ada'' ''a@b.com''
                  ''5/1/2024''\<rparr>,
      SendMail
        \<lparr>mail_from = JStr ''shop@example.com'',
         mail_to = JStr ''a@b.com'',
         subject = ''Order Confirmation - Payment pi_1'',
         html = CustomerHtml ''pi_1'' ''Ada'' ''20.00'' ''Credit Card (Stripe)''\<rparr>]"
proof -
  let ?b1 = "JObj [(''payment_intent_id'', JStr ''pi_1'')]"
  let ?b2 = "JObj [(''payment_intent_id'', JStr ''pi_2'')]"
  have fx: "toFixed2 example_runtime (Fin 20) = ''20.00''"
    by code_simp
  have dv: "num_div example_runtime (Fin 2000) (Fin 100) = Fin 20"
    by (simp add: example_runtime_def)
  have tr: "emailTransporter example_env"
    by (simp add: emailTransporter_def example_env_def js_and_def str_or_undefined_def)
  have b1: "\<not> nullish ?b1" "truthy (jsprop ?b1 ''payment_intent_id'')"
    and b2: "\<not> nullish ?b2" "truthy (jsprop ?b2 ''payment_intent_id'')"
    by simp_all
  have r1: "paymentIntents_retrieve example_services (jsprop ?b1 ''payment_intent_id'') =
              Inr (example_intent ''succeeded'')"
    and r2: "paymentIntents_retrieve example_services (jsprop ?b2 ''payment_intent_id'') =
              Inr (example_intent ''processing'')"
    by (simp_all add: example_services_def)
  have s: "\<And>st. jsprop (example_intent st) ''status'' = JStr st"
    by (simp add: example_intent_def)
  note t1 = confirm_payment_by_status [OF b1 r1 s, where rt = example_runtime and env = example_env
      and pid = "''pi_1''" and n = "Fin 2000" and email = "''a@b.com''" and name = "''Ada''"]
  note t2 = confirm_payment_by_status [OF b2 r2 s, where rt = example_runtime and env = example_env
      and pid = "''pi_1''" and n = "Fin 2000" and email = "''a@b.com''" and name = "''Ada''"]
  have first: "confirm_payment example_runtime example_env example_services ?b2 =
      (json 200 [(''success'', JBool False),
                 (''status'', JStr ''processing''),
                 (''message'', JStr ''Payment status is processing'')],
       [StripeRetrieve (JStr ''pi_2'')])"
    using t2 [THEN conjunct1] by simp
  have second: "fst (confirm_payment example_runtime example_env example_services ?b1) =
      json 200 [(''success'', JBool True), (''payment_intent'', example_intent ''succeeded'')]"
    using t1 [THEN conjunct2, THEN conjunct1] by simp
  have typed: "''succeeded'' = ''succeeded'' \<and> emailTransporter example_env \<and>
      jsprop (example_intent ''succeeded'') ''object'' = JStr ''payment_intent'' \<and>
      jsprop (example_intent ''succeeded'') ''id'' = JStr ''pi_1'' \<and>
      jsprop (example_intent ''succeeded'') ''amount'' = JNum (Fin 2000) \<and>
      js_or (jsprop (example_intent ''succeeded'') ''receipt_email'')
        (opt (jsprop (example_intent ''succeeded'') ''metadata'') ''customer_email'') =
        JStr ''a@b.com'' \<and>
      ''a@b.com'' \<noteq> [] \<and>
      js_or (opt (jsprop (example_intent ''succeeded'') ''metadata'') ''customer_name'')
        (JStr ''Customer'') = JStr ''Ada''"
    using tr by (simp add: example_intent_def js_or_def opt_def)
  have third: "snd (confirm_payment example_runtime example_env example_services ?b1) =
     [StripeRetrieve (JStr ''pi_1''),
      SendMail
        \<lparr>mail_from = JStr ''shop@example.com'',
         mail_to = JStr ''anaroyes7@gmail.com'',
         subject = ''New Order - Payment pi_1'',
         html = BusinessHtml ''pi_1'' ''20.00'' ''Credit Card (Stripe)'' ''Ada'' ''a@b.com''
                  ''5/1/2024''\<rparr>,
      SendMail
        \<lparr>mail_from = JStr ''shop@example.com'',
         mail_to = JStr ''a@b.com'',
         subject = ''Order Confirmation - Payment pi_1'',
         html = CustomerHtml ''pi_1'' ''Ada'' ''20.00'' ''Credit Card (Stripe)''\<rparr>]"
    using t1 [THEN conjunct2, THEN conjunct2, rule_format, OF typed]
    by (simp add: fx dv example_env_def example_services_def str_or_undefined_def js_or_def
          del: toFixed2.simps)
  from first second third show ?thesis by blast
qed

end
